theory Spec2Isabelle
  imports Main "HOL-Library.Char_ord" "HOL-Library.List_Lexorder"
begin

section \<open>JavaScript values\<close>

text \<open>
  Package descriptors, the JSON printed by the external tool and registry responses are
  JavaScript values. Numbers are the integers JSON counts with (download counts, stamps);
  an object is the list of its own properties, the first binding of a key being the one
  that is read.
\<close>

datatype jsval =
    Undefined
  | Null
  | Bool bool
  | Num int
  | Str string
  | Arr "jsval list"
  | Obj "(string \<times> jsval) list"

text \<open>Truthiness, as \<open>if (v)\<close>, \<open>!v\<close>, \<open>a || b\<close> and \<open>a && b\<close> test it.\<close>

fun truthy :: "jsval \<Rightarrow> bool" where
  "truthy Undefined = False"
| "truthy Null = False"
| "truthy (Bool b) = b"
| "truthy (Num n) = (n \<noteq> 0)"
| "truthy (Str s) = (s \<noteq> [])"
| "truthy (Arr xs) = True"
| "truthy (Obj kvs) = True"

text \<open>\<open>v != null\<close>: neither \<open>null\<close> nor \<open>undefined\<close>.\<close>

fun not_nullish :: "jsval \<Rightarrow> bool" where
  "not_nullish Undefined = False"
| "not_nullish Null = False"
| "not_nullish v = True"

text \<open>
  \<open>v.k\<close> for the property names the code reads (\<open>name\<close>, \<open>version\<close>, \<open>theme\<close>,
  \<open>metadata\<close>, \<open>apmInstallSource\<close>, \<open>type\<close>, \<open>source\<close>, \<open>releases\<close>, ...), none of which a
  prototype defines: a missing property is \<open>undefined\<close>, and so is any such property of a
  primitive or an array. Reading a property of \<open>null\<close> or \<open>undefined\<close> throws; \<open>get_prop\<close> is
  used where the receiver is known to be neither, \<open>get_checked\<close> elsewhere.
\<close>

fun get_prop :: "jsval \<Rightarrow> string \<Rightarrow> jsval" where
  "get_prop (Obj kvs) k = (case map_of kvs k of Some v \<Rightarrow> v | None \<Rightarrow> Undefined)"
| "get_prop v k = Undefined"

datatype js_error = TypeError | ReferenceError

fun get_checked :: "jsval \<Rightarrow> string \<Rightarrow> js_error + jsval" where
  "get_checked Undefined k = Inl TypeError"
| "get_checked Null k = Inl TypeError"
| "get_checked v k = Inr (get_prop v k)"

text \<open>Decimal digits of a natural number, and the string a template literal makes of a value.\<close>

fun dec_nat :: "nat \<Rightarrow> string" where
  "dec_nat n =
     (if n < 10 then [char_of (48 + n)]
      else dec_nat (n div 10) @ [char_of (48 + n mod 10)])"

declare dec_nat.simps [simp del]

definition dec_int :: "int \<Rightarrow> string" where
  "dec_int i = (if i < 0 then CHR ''-'' # dec_nat (nat (- i)) else dec_nat (nat i))"

fun join :: "string \<Rightarrow> string list \<Rightarrow> string" where
  "join sep [] = []"
| "join sep [x] = x"
| "join sep (x # y # ys) = x @ sep @ join sep (y # ys)"

fun to_str :: "jsval \<Rightarrow> string" where
  "to_str Undefined = ''undefined''"
| "to_str Null = ''null''"
| "to_str (Bool b) = (if b then ''true'' else ''false'')"
| "to_str (Num n) = dec_int n"
| "to_str (Str s) = s"
| "to_str (Arr xs) =
     join '','' (map (\<lambda>x. if not_nullish x then to_str x else []) xs)"
| "to_str (Obj kvs) = ''[object Object]''"

text \<open>
  \<open>xs.includes(v)\<close> compares with SameValueZero: primitives by value, objects and arrays
  by identity, so a freshly parsed object or array is never found.
\<close>

fun primitive :: "jsval \<Rightarrow> bool" where
  "primitive (Arr xs) = False"
| "primitive (Obj kvs) = False"
| "primitive v = True"

definition array_includes :: "jsval list \<Rightarrow> jsval \<Rightarrow> bool" where
  "array_includes xs v = (primitive v \<and> v \<in> set xs)"

section \<open>The package manager's state\<close>

text \<open>
  An \<open>Error\<close> object as the package manager builds it: the message and the captured
  output, and the \<open>packageInstallError\<close> flag where \<open>onError\<close> sets it.
\<close>

record err =
  err_message :: string
  err_stdout :: string
  err_stderr :: string
  packageInstallError :: "bool option"

text \<open>
  What the package manager does to the outside, in order: events on the emitter with their
  payload (\<open>{pack, error}\<close>, or the \<open>eventArg\<close> of \<open>installAlternative\<close>), calls of a
  caller's callback, processes handed to the command runner, lines on the console. The
  writes of the outdated-packages slot are recorded in the same sequence, so that their
  place among the events can be read off.
\<close>

datatype payload =
    PackEvent jsval "err option"
  | AltEvent jsval jsval "err option"

datatype effect =
    Emit string payload
  | Callback "err option" jsval
  | RunCommand "jsval list"
  | ConsoleError string
  | SetLoadOutdated jsval int

text \<open>The single slot \<open>apmCache.loadOutdated = {value, expiry}\<close>.\<close>

record cache_slot =
  slot_value :: jsval
  slot_expiry :: int

text \<open>
  The host's package registry (\<open>atom.packages\<close>) and the disabled-packages list of its
  configuration, as far as the package manager asks and changes them.
\<close>

record host =
  loaded :: "jsval set"
  active :: "jsval set"
  disabled :: "jsval set"

datatype promise_state = Pending | Fulfilled jsval | Rejected err

record pm_state =
  loadOutdated_slot :: cache_slot
  packagePromises :: "(string \<times> nat) list"
  promises :: "promise_state list"
  atom_packages :: host
  trace :: "effect list"

type_synonym callback = "err option \<Rightarrow> jsval \<Rightarrow> pm_state \<Rightarrow> pm_state"

text \<open>A caller's callback that only records that it was called, and with what.\<close>

definition record_callback :: callback where
  "record_callback e v st = st\<lparr>trace := trace st @ [Callback e v]\<rparr>"

text \<open>\<open>typeof callback === 'function' ? callback(error) : undefined\<close>\<close>

fun call_optional :: "callback option \<Rightarrow> err option \<Rightarrow> pm_state \<Rightarrow> pm_state" where
  "call_optional None e st = st"
| "call_optional (Some cb) e st = cb e Undefined st"

text \<open>
  What the environment of one process gives back: the exit code with the buffered output,
  or the failure to spawn that \<open>onWillThrowError\<close> reports (with the error's message).
\<close>

datatype outcome =
    Exit int string string
  | WillThrowError string

text \<open>
  The surroundings the package manager reads: \<open>JSON.parse\<close> (the parser's message on a
  syntax error), the host's version and whether \<open>semver.valid\<close> accepts it, and the
  configuration value \<open>core.versionPinnedPackages\<close>.
\<close>

record env =
  JSON_parse :: "string \<Rightarrow> string + jsval"
  atom_version :: string
  semver_valid :: bool
  versionPinnedPackages :: "jsval list"

definition CACHE_EXPIRY :: int where
  "CACHE_EXPIRY = 1000 * 60 * 10"

definition emit :: "string \<Rightarrow> payload \<Rightarrow> pm_state \<Rightarrow> pm_state" where
  "emit eventName p st = st\<lparr>trace := trace st @ [Emit eventName p]\<rparr>"

definition is_theme :: "jsval \<Rightarrow> bool" where
  "is_theme pack =
     (truthy (get_prop pack ''theme'') \<or>
      (truthy (get_prop pack ''metadata'') \<and> truthy (get_prop (get_prop pack ''metadata'') ''theme'')))"

definition emitPackageEvent :: "string \<Rightarrow> jsval \<Rightarrow> err option \<Rightarrow> pm_state \<Rightarrow> pm_state" where
  "emitPackageEvent eventName pack error st =
     emit ((if is_theme pack then ''theme-'' else ''package-'') @ eventName)
       (PackEvent pack error) st"

text \<open>
  \<open>runCommand\<close> appends \<open>--no-color\<close> and hands the arguments to a new process. (With
  the proxy setting on, the process starts once the proxies are resolved; its exit and its
  spawn failure reach the same handlers.)
\<close>

definition runCommand :: "jsval list \<Rightarrow> pm_state \<Rightarrow> pm_state" where
  "runCommand args st = st\<lparr>trace := trace st @ [RunCommand (args @ [Str ''--no-color''])]\<rparr>"

definition setLoadOutdated :: "jsval \<Rightarrow> int \<Rightarrow> pm_state \<Rightarrow> pm_state" where
  "setLoadOutdated v expiry st =
     st\<lparr>loadOutdated_slot := \<lparr>slot_value = v, slot_expiry = expiry\<rparr>,
        trace := trace st @ [SetLoadOutdated v expiry]\<rparr>"

definition clearOutdatedCache :: "pm_state \<Rightarrow> pm_state" where
  "clearOutdatedCache st = setLoadOutdated Null 0 st"

definition createJsonParseError :: "string \<Rightarrow> string \<Rightarrow> string \<Rightarrow> err" where
  "createJsonParseError msg parseMessage out =
     \<lparr>err_message = msg, err_stdout = [], err_stderr = parseMessage @ '': '' @ out,
      packageInstallError = None\<rparr>"

definition createProcessError :: "string \<Rightarrow> string \<Rightarrow> err" where
  "createProcessError msg processMessage =
     \<lparr>err_message = msg, err_stdout = [], err_stderr = processMessage,
      packageInstallError = None\<rparr>"

definition exitError :: "string \<Rightarrow> string \<Rightarrow> string \<Rightarrow> err" where
  "exitError msg out errs =
     \<lparr>err_message = msg, err_stdout = out, err_stderr = errs, packageInstallError = None\<rparr>"

section \<open>loadOutdated\<close>

definition outdated_args :: "env \<Rightarrow> jsval list" where
  "outdated_args e =
     [Str ''outdated'', Str ''--json''] @
     (if semver_valid e then [Str ''--compatible'', Str (atom_version e)] else [])"

definition outdated_errorMessage :: string where
  "outdated_errorMessage = ''Fetching outdated packages and themes failed.''"

text \<open>
  The synchronous part of \<open>loadOutdated(clearCache, callback)\<close>, called at time \<open>now\<close>:
  either the callback is served from the slot, or a process is started.
\<close>

definition loadOutdated :: "env \<Rightarrow> bool \<Rightarrow> callback \<Rightarrow> int \<Rightarrow> pm_state \<Rightarrow> pm_state" where
  "loadOutdated e clearCache cb now st =
     (if clearCache then runCommand (outdated_args e) (clearOutdatedCache st)
      else if truthy (slot_value (loadOutdated_slot st)) \<and> slot_expiry (loadOutdated_slot st) > now
      then cb None (slot_value (loadOutdated_slot st)) st
      else runCommand (outdated_args e) st)"

text \<open>
  \<open>packages.filter(pack => !versionPinnedPackages.includes(pack.name))\<close>: reading
  \<open>name\<close> of a \<open>null\<close> element throws.
\<close>

fun filter_unpinned :: "jsval list \<Rightarrow> jsval list \<Rightarrow> js_error + jsval list" where
  "filter_unpinned pinned [] = Inr []"
| "filter_unpinned pinned (p # ps) =
     (case get_checked p ''name'' of
        Inl x \<Rightarrow> Inl x
      | Inr n \<Rightarrow>
          (case filter_unpinned pinned ps of
             Inl x \<Rightarrow> Inl x
           | Inr rest \<Rightarrow> Inr (if array_includes pinned n then rest else p # rest)))"

definition emit_all :: "string \<Rightarrow> jsval list \<Rightarrow> pm_state \<Rightarrow> pm_state" where
  "emit_all eventName packs st = foldl (\<lambda>s p. emitPackageEvent eventName p None s) st packs"

text \<open>
  The exit handler of the process \<open>loadOutdated\<close> started, run at time \<open>now\<close>. An
  exception it does not catch (\<open>filter\<close> on a parsed value that is no array, or on an array
  with a \<open>null\<close> element) leaves state, callback and emitter untouched.
\<close>

definition loadOutdated_exit ::
    "env \<Rightarrow> callback \<Rightarrow> int \<Rightarrow> int \<Rightarrow> string \<Rightarrow> string \<Rightarrow> pm_state \<Rightarrow> js_error + pm_state" where
  "loadOutdated_exit e cb now code out errs st =
     (if code = 0 then
        (case JSON_parse e out of
           Inl parseMessage \<Rightarrow>
             Inr (cb (Some (createJsonParseError outdated_errorMessage parseMessage out)) Undefined st)
         | Inr parsed \<Rightarrow>
             (case (if truthy parsed then parsed else Arr []) of
                Arr packages \<Rightarrow>
                  (case filter_unpinned (versionPinnedPackages e) packages of
                     Inl x \<Rightarrow> Inl x
                   | Inr updatablePackages \<Rightarrow>
                       Inr (cb None (Arr updatablePackages)
                             (emit_all ''update-available'' updatablePackages
                               (setLoadOutdated (Arr updatablePackages) (now + CACHE_EXPIRY) st))))
              | _ \<Rightarrow> Inl TypeError))
      else Inr (cb (Some (exitError outdated_errorMessage out errs)) Undefined st))"

text \<open>\<open>handleProcessErrors(apmProcess, message, callback)\<close>: the spawn failure's handler.\<close>

definition handleProcessErrors :: "string \<Rightarrow> (err \<Rightarrow> pm_state \<Rightarrow> pm_state) \<Rightarrow> string \<Rightarrow> pm_state \<Rightarrow> pm_state" where
  "handleProcessErrors msg cb processMessage st = cb (createProcessError msg processMessage) st"

text \<open>The process \<open>loadOutdated\<close> started comes back with \<open>oc\<close> at time \<open>now\<close>.\<close>

fun loadOutdated_done :: "env \<Rightarrow> callback \<Rightarrow> int \<Rightarrow> outcome \<Rightarrow> pm_state \<Rightarrow> js_error + pm_state" where
  "loadOutdated_done e cb now (Exit code out errs) st = loadOutdated_exit e cb now code out errs st"
| "loadOutdated_done e cb now (WillThrowError m) st =
     Inr (handleProcessErrors outdated_errorMessage (\<lambda>x. cb (Some x) Undefined) m st)"

section \<open>The host's package registry\<close>

definition isPackageLoaded :: "jsval \<Rightarrow> pm_state \<Rightarrow> bool" where
  "isPackageLoaded n st = (n \<in> loaded (atom_packages st))"

definition isPackageActive :: "jsval \<Rightarrow> pm_state \<Rightarrow> bool" where
  "isPackageActive n st = (n \<in> active (atom_packages st))"

definition isPackageDisabled :: "jsval \<Rightarrow> pm_state \<Rightarrow> bool" where
  "isPackageDisabled n st = (n \<in> disabled (atom_packages st))"

definition deactivatePackage :: "jsval \<Rightarrow> pm_state \<Rightarrow> pm_state" where
  "deactivatePackage n st =
     st\<lparr>atom_packages := (atom_packages st)\<lparr>active := active (atom_packages st) - {n}\<rparr>\<rparr>"

definition unloadPackage :: "jsval \<Rightarrow> pm_state \<Rightarrow> pm_state" where
  "unloadPackage n st =
     st\<lparr>atom_packages := (atom_packages st)\<lparr>loaded := loaded (atom_packages st) - {n}\<rparr>\<rparr>"

definition activatePackage :: "jsval \<Rightarrow> pm_state \<Rightarrow> pm_state" where
  "activatePackage n st =
     st\<lparr>atom_packages := (atom_packages st)
          \<lparr>loaded := insert n (loaded (atom_packages st)),
           active := insert n (active (atom_packages st))\<rparr>\<rparr>"

definition atom_loadPackage :: "jsval \<Rightarrow> pm_state \<Rightarrow> pm_state" where
  "atom_loadPackage n st =
     st\<lparr>atom_packages := (atom_packages st)\<lparr>loaded := insert n (loaded (atom_packages st))\<rparr>\<rparr>"

definition removePackageNameFromDisabledPackages :: "jsval \<Rightarrow> pm_state \<Rightarrow> pm_state" where
  "removePackageNameFromDisabledPackages n st =
     st\<lparr>atom_packages := (atom_packages st)\<lparr>disabled := disabled (atom_packages st) - {n}\<rparr>\<rparr>"

definition unload :: "jsval \<Rightarrow> pm_state \<Rightarrow> pm_state" where
  "unload n st =
     (if isPackageLoaded n st
      then unloadPackage n (if isPackageActive n st then deactivatePackage n st else st)
      else st)"

section \<open>install, uninstall, update\<close>

text \<open>
  A package descriptor is an object; it is given by its properties, so that destructuring
  it cannot throw. The curly quotes of the error messages are their UTF-8 bytes.
\<close>

type_synonym descriptor = "(string \<times> jsval) list"

definition ldquo :: string where
  "ldquo = [char_of (226::nat), char_of (128::nat), char_of (156::nat)]"

definition rdquo :: string where
  "rdquo = [char_of (226::nat), char_of (128::nat), char_of (157::nat)]"

text \<open>\<open>v[0]\<close> of a parsed value, and the own enumerable properties \<open>Object.assign\<close> copies.\<close>

definition indexed :: "'a list \<Rightarrow> (string \<times> 'a) list" where
  "indexed xs = zip (map dec_nat [0..<length xs]) xs"

fun index0 :: "jsval \<Rightarrow> js_error + jsval" where
  "index0 Undefined = Inl TypeError"
| "index0 Null = Inl TypeError"
| "index0 (Arr []) = Inr Undefined"
| "index0 (Arr (x # xs)) = Inr x"
| "index0 (Str []) = Inr Undefined"
| "index0 (Str (c # cs)) = Inr (Str [c])"
| "index0 (Obj kvs) = Inr (get_prop (Obj kvs) ''0'')"
| "index0 v = Inr Undefined"

fun own_props :: "jsval \<Rightarrow> (string \<times> jsval) list" where
  "own_props (Obj kvs) = kvs"
| "own_props (Arr xs) = indexed xs"
| "own_props (Str s) = indexed (map (\<lambda>c. Str [c]) s)"
| "own_props v = []"

definition nameWithVersion :: "descriptor \<Rightarrow> jsval" where
  "nameWithVersion pack =
     (if not_nullish (get_prop (Obj pack) ''version'')
      then Str (to_str (get_prop (Obj pack) ''name'') @ ''@'' @ to_str (get_prop (Obj pack) ''version''))
      else get_prop (Obj pack) ''name'')"

definition install_errorMessage :: "descriptor \<Rightarrow> string" where
  "install_errorMessage pack =
     ''Installing '' @ ldquo @ to_str (nameWithVersion pack) @ rdquo @ '' failed.''"

text \<open>What the handlers of \<open>install\<close> keep from the call: the descriptor and the two flags.\<close>

record install_closure =
  ic_pack :: descriptor
  ic_activateOnSuccess :: bool
  ic_activateOnFailure :: bool

definition install_onError :: "descriptor \<Rightarrow> callback option \<Rightarrow> err \<Rightarrow> pm_state \<Rightarrow> pm_state" where
  "install_onError pack cb error st =
     (let error' = error\<lparr>packageInstallError := Some (\<not> truthy (get_prop (Obj pack) ''theme''))\<rparr>
      in call_optional cb (Some error') (emitPackageEvent ''install-failed'' (Obj pack) (Some error') st))"

text \<open>The synchronous part of \<open>install(pack, callback)\<close>, up to the registration of the handlers.\<close>

definition install_begin :: "descriptor \<Rightarrow> pm_state \<Rightarrow> install_closure \<times> pm_state" where
  "install_begin pack st =
     (let name = get_prop (Obj pack) ''name'';
          theme = get_prop (Obj pack) ''theme'';
          c = \<lparr>ic_pack = pack,
               ic_activateOnSuccess = (\<not> truthy theme \<and> \<not> isPackageDisabled name st),
               ic_activateOnFailure = isPackageActive name st\<rparr>
      in (c, runCommand [Str ''install'', nameWithVersion pack, Str ''--json'']
               (emitPackageEvent ''installing'' (Obj pack) None (unload name st))))"

text \<open>
  The \<open>try\<close> block of the exit handler: the descriptor with the metadata of the first
  element of the parsed output merged in, or the descriptor as it was when anything in the
  block throws.
\<close>

definition install_merged :: "env \<Rightarrow> descriptor \<Rightarrow> string \<Rightarrow> descriptor" where
  "install_merged e pack out =
     (case JSON_parse e out of
        Inl parseMessage \<Rightarrow> pack
      | Inr parsed \<Rightarrow>
          (case index0 parsed of
             Inl x \<Rightarrow> pack
           | Inr packageInfo \<Rightarrow>
               (case get_checked packageInfo ''metadata'' of
                  Inl x \<Rightarrow> pack
                | Inr metadata \<Rightarrow> own_props metadata @ pack)))"

definition install_exit ::
    "env \<Rightarrow> install_closure \<Rightarrow> callback option \<Rightarrow> int \<Rightarrow> string \<Rightarrow> string \<Rightarrow> pm_state \<Rightarrow> pm_state" where
  "install_exit e c cb code out errs st =
     (if code = 0 then
        (let pack = install_merged e (ic_pack c) out;
             name = get_prop (Obj pack) ''name'';
             st1 = clearOutdatedCache st;
             st2 = (if ic_activateOnSuccess c then activatePackage name st1
                    else atom_loadPackage name st1);
             st3 = call_optional cb None st2
         in emitPackageEvent ''installed'' (Obj pack) None st3)
      else
        (let name = get_prop (Obj (ic_pack c)) ''name'';
             st1 = (if ic_activateOnFailure c then activatePackage name st else st)
         in install_onError (ic_pack c) cb
              (exitError (install_errorMessage (ic_pack c)) out errs) st1))"

fun install_done ::
    "env \<Rightarrow> install_closure \<Rightarrow> callback option \<Rightarrow> outcome \<Rightarrow> pm_state \<Rightarrow> pm_state" where
  "install_done e c cb (Exit code out errs) st = install_exit e c cb code out errs st"
| "install_done e c cb (WillThrowError m) st =
     handleProcessErrors (install_errorMessage (ic_pack c)) (install_onError (ic_pack c) cb) m st"

text \<open>One installation from the call to the end of its process.\<close>

definition install :: "env \<Rightarrow> descriptor \<Rightarrow> callback option \<Rightarrow> outcome \<Rightarrow> pm_state \<Rightarrow> pm_state" where
  "install e pack cb oc st =
     (case install_begin pack st of (c, st1) \<Rightarrow> install_done e c cb oc st1)"

subsection \<open>uninstall\<close>

definition uninstall_errorMessage :: "descriptor \<Rightarrow> string" where
  "uninstall_errorMessage pack =
     ''Uninstalling '' @ ldquo @ to_str (get_prop (Obj pack) ''name'') @ rdquo @ '' failed.''"

definition uninstall_onError :: "descriptor \<Rightarrow> callback option \<Rightarrow> err \<Rightarrow> pm_state \<Rightarrow> pm_state" where
  "uninstall_onError pack cb error st =
     call_optional cb (Some error) (emitPackageEvent ''uninstall-failed'' (Obj pack) (Some error) st)"

definition uninstall_begin :: "descriptor \<Rightarrow> pm_state \<Rightarrow> pm_state" where
  "uninstall_begin pack st =
     (let name = get_prop (Obj pack) ''name'';
          st1 = (if isPackageActive name st then deactivatePackage name st else st)
      in runCommand [Str ''uninstall'', Str ''--hard'', name]
           (emitPackageEvent ''uninstalling'' (Obj pack) None st1))"

definition uninstall_exit ::
    "descriptor \<Rightarrow> callback option \<Rightarrow> int \<Rightarrow> string \<Rightarrow> string \<Rightarrow> pm_state \<Rightarrow> pm_state" where
  "uninstall_exit pack cb code out errs st =
     (let name = get_prop (Obj pack) ''name'' in
      if code = 0 then
        emitPackageEvent ''uninstalled'' (Obj pack) None
          (call_optional cb None
            (removePackageNameFromDisabledPackages name
              (unload name (clearOutdatedCache st))))
      else uninstall_onError pack cb (exitError (uninstall_errorMessage pack) out errs) st)"

fun uninstall_done :: "descriptor \<Rightarrow> callback option \<Rightarrow> outcome \<Rightarrow> pm_state \<Rightarrow> pm_state" where
  "uninstall_done pack cb (Exit code out errs) st = uninstall_exit pack cb code out errs st"
| "uninstall_done pack cb (WillThrowError m) st =
     handleProcessErrors (uninstall_errorMessage pack) (uninstall_onError pack cb) m st"

definition uninstall :: "descriptor \<Rightarrow> callback option \<Rightarrow> outcome \<Rightarrow> pm_state \<Rightarrow> pm_state" where
  "uninstall pack cb oc st = uninstall_done pack cb oc (uninstall_begin pack st)"

subsection \<open>update\<close>

definition update_errorMessage :: "descriptor \<Rightarrow> jsval \<Rightarrow> string" where
  "update_errorMessage pack newVersion =
     (if truthy newVersion
      then ''Updating to '' @ ldquo @ to_str (get_prop (Obj pack) ''name'') @ ''@'' @
           to_str newVersion @ rdquo @ '' failed.''
      else ''Updating to latest sha failed.'')"

definition update_onError :: "descriptor \<Rightarrow> callback option \<Rightarrow> err \<Rightarrow> pm_state \<Rightarrow> pm_state" where
  "update_onError pack cb error st =
     (let error' = error\<lparr>packageInstallError := Some (\<not> truthy (get_prop (Obj pack) ''theme''))\<rparr>
      in call_optional cb (Some error') (emitPackageEvent ''update-failed'' (Obj pack) (Some error') st))"

definition update_args :: "descriptor \<Rightarrow> jsval \<Rightarrow> jsval list" where
  "update_args pack newVersion =
     (let apmInstallSource = get_prop (Obj pack) ''apmInstallSource'' in
      if (if not_nullish apmInstallSource then get_prop apmInstallSource ''type'' else Undefined)
           = Str ''git''
      then [Str ''install'', get_prop apmInstallSource ''source'']
      else [Str ''install'',
            Str (to_str (get_prop (Obj pack) ''name'') @ ''@'' @ to_str newVersion)])"

definition update_begin :: "descriptor \<Rightarrow> jsval \<Rightarrow> pm_state \<Rightarrow> pm_state" where
  "update_begin pack newVersion st =
     runCommand (update_args pack newVersion) (emitPackageEvent ''updating'' (Obj pack) None st)"

definition update_exit ::
    "descriptor \<Rightarrow> jsval \<Rightarrow> callback option \<Rightarrow> int \<Rightarrow> string \<Rightarrow> string \<Rightarrow> pm_state \<Rightarrow> pm_state" where
  "update_exit pack newVersion cb code out errs st =
     (if code = 0 then
        emitPackageEvent ''updated'' (Obj pack) None
          (call_optional cb None (clearOutdatedCache st))
      else update_onError pack cb (exitError (update_errorMessage pack newVersion) out errs) st)"

fun update_done ::
    "descriptor \<Rightarrow> jsval \<Rightarrow> callback option \<Rightarrow> outcome \<Rightarrow> pm_state \<Rightarrow> pm_state" where
  "update_done pack newVersion cb (Exit code out errs) st =
     update_exit pack newVersion cb code out errs st"
| "update_done pack newVersion cb (WillThrowError m) st =
     handleProcessErrors (update_errorMessage pack newVersion) (update_onError pack cb) m st"

definition update ::
    "descriptor \<Rightarrow> jsval \<Rightarrow> callback option \<Rightarrow> outcome \<Rightarrow> pm_state \<Rightarrow> pm_state" where
  "update pack newVersion cb oc st =
     update_done pack newVersion cb oc (update_begin pack newVersion st)"

section \<open>installAlternative\<close>

text \<open>
  Promises live in a store; a promise is its index there. A settled promise ignores
  later calls of \<open>resolve\<close> and \<open>reject\<close>.
\<close>

definition new_promise :: "pm_state \<Rightarrow> nat \<times> pm_state" where
  "new_promise st = (length (promises st), st\<lparr>promises := promises st @ [Pending]\<rparr>)"

definition settle :: "nat \<Rightarrow> promise_state \<Rightarrow> pm_state \<Rightarrow> pm_state" where
  "settle i v st =
     (if i < length (promises st) \<and> promises st ! i = Pending
      then st\<lparr>promises := (promises st)[i := v]\<rparr>
      else st)"

text \<open>
  The callback both executors pass on:
  \<open>function (error) { if (error) reject(error) else resolve() }\<close>.
\<close>

fun settle_callback :: "nat \<Rightarrow> callback" where
  "settle_callback i (Some error) v st = settle i (Rejected error) st"
| "settle_callback i None v st = settle i (Fulfilled Undefined) st"

record alt_closure =
  ac_pack :: descriptor
  ac_alternative :: jsval
  ac_uninstallPromise :: nat
  ac_installPromise :: nat
  ac_all :: nat
  ac_install :: install_closure

definition eventArg :: "alt_closure \<Rightarrow> jsval" where
  "eventArg c = Obj [(''pack'', Obj (ac_pack c)), (''alternative'', ac_alternative c)]"

text \<open>
  The synchronous part of \<open>installAlternative(pack, alternativePackageName, callback)\<close>:
  the first event, the two executors (each runs the synchronous part of its operation),
  and the promise of \<open>Promise.all\<close>.
\<close>

definition installAlternative_begin :: "descriptor \<Rightarrow> jsval \<Rightarrow> pm_state \<Rightarrow> alt_closure \<times> pm_state" where
  "installAlternative_begin pack alternativePackageName st =
     (let st1 = emit ''package-installing-alternative''
                  (AltEvent (Obj pack) alternativePackageName None) st;
          (u, st2) = new_promise st1;
          st3 = uninstall_begin pack st2;
          (i, st4) = new_promise st3;
          (ic, st5) = install_begin [(''name'', alternativePackageName)] st4;
          (a, st6) = new_promise st5
      in (\<lparr>ac_pack = pack, ac_alternative = alternativePackageName,
            ac_uninstallPromise = u, ac_installPromise = i, ac_all = a, ac_install = ic\<rparr>,
          st6))"

text \<open>The two handlers chained on \<open>Promise.all\<close>.\<close>

definition alt_then :: "alt_closure \<Rightarrow> callback \<Rightarrow> pm_state \<Rightarrow> pm_state" where
  "alt_then c cb st =
     emit ''package-installed-alternative''
       (AltEvent (Obj (ac_pack c)) (ac_alternative c) None)
       (cb None (eventArg c) st)"

definition alt_catch :: "alt_closure \<Rightarrow> callback \<Rightarrow> err \<Rightarrow> pm_state \<Rightarrow> pm_state" where
  "alt_catch c cb error st =
     emit ''package-install-alternative-failed''
       (AltEvent (Obj (ac_pack c)) (ac_alternative c) (Some error))
       (cb (Some error) (eventArg c)
         (st\<lparr>trace := trace st @ [ConsoleError (err_message error)]\<rparr>))"

text \<open>
  The reactions of \<open>Promise.all([uninstallPromise, installPromise])\<close>, run as microtasks
  once a handler of a process has returned: it rejects with the reason of an input as
  soon as that input is rejected, it is fulfilled once both inputs are, and it settles once.
\<close>

definition promise_all :: "alt_closure \<Rightarrow> callback \<Rightarrow> pm_state \<Rightarrow> pm_state" where
  "promise_all c cb st =
     (if promises st ! ac_all c \<noteq> Pending then st
      else
        (case (promises st ! ac_uninstallPromise c, promises st ! ac_installPromise c) of
           (Rejected error, y) \<Rightarrow> alt_catch c cb error (settle (ac_all c) (Rejected error) st)
         | (x, Rejected error) \<Rightarrow> alt_catch c cb error (settle (ac_all c) (Rejected error) st)
         | (Fulfilled x, Fulfilled y) \<Rightarrow>
             alt_then c cb (settle (ac_all c) (Fulfilled (Arr [x, y])) st)
         | _ \<Rightarrow> st))"

text \<open>
  The process of one of the two operations comes back: its handler runs, then the
  microtasks.
\<close>

datatype sub_operation = Uninstall | Install

fun installAlternative_deliver ::
    "env \<Rightarrow> alt_closure \<Rightarrow> callback \<Rightarrow> sub_operation \<times> outcome \<Rightarrow> pm_state \<Rightarrow> pm_state" where
  "installAlternative_deliver e c cb (Uninstall, oc) st =
     promise_all c cb
       (uninstall_done (ac_pack c) (Some (settle_callback (ac_uninstallPromise c))) oc st)"
| "installAlternative_deliver e c cb (Install, oc) st =
     promise_all c cb
       (install_done e (ac_install c) (Some (settle_callback (ac_installPromise c))) oc st)"

text \<open>
  \<open>installAlternative\<close> followed by the processes coming back in the order of \<open>sched\<close>;
  a process that has not come back yet is absent from \<open>sched\<close>.
\<close>

definition installAlternative ::
    "env \<Rightarrow> descriptor \<Rightarrow> jsval \<Rightarrow> callback \<Rightarrow> (sub_operation \<times> outcome) list \<Rightarrow> pm_state
      \<Rightarrow> alt_closure \<times> pm_state" where
  "installAlternative e pack alternativePackageName cb sched st =
     (case installAlternative_begin pack alternativePackageName st of
        (c, st1) \<Rightarrow> (c, foldl (\<lambda>s d. installAlternative_deliver e c cb d s) st1 sched))"

section \<open>getPackage\<close>

text \<open>
  \<open>packagePromises\<close> is created as an array (\<open>[]\<close>) and indexed by package names. Reading
  \<open>packagePromises[name]\<close> therefore finds, besides the promises stored under names, what
  every array has: its \<open>length\<close>, and what \<open>Array.prototype\<close> and \<open>Object.prototype\<close> define
  (the names below are those of ECMAScript 2016; an engine may define more). A name that is
  an array index (\<open>0\<close>, \<open>1\<close>, ..., written without leading zeros, below \<open>2^32 - 1\<close>) moves
  \<open>length\<close> when a promise is stored under it.
\<close>

datatype property_value =
    PromiseRef nat
  | NumberValue nat
  | Inherited string

definition array_prototype_names :: "string list" where
  "array_prototype_names =
     [''constructor'', ''concat'', ''copyWithin'', ''fill'', ''find'', ''findIndex'',
      ''lastIndexOf'', ''pop'', ''push'', ''reverse'', ''shift'', ''unshift'', ''slice'',
      ''sort'', ''splice'', ''includes'', ''indexOf'', ''join'', ''keys'', ''entries'',
      ''values'', ''forEach'', ''filter'', ''map'', ''every'', ''some'', ''reduce'',
      ''reduceRight'', ''toLocaleString'', ''toString'']"

definition object_prototype_names :: "string list" where
  "object_prototype_names =
     [''constructor'', ''__defineGetter__'', ''__defineSetter__'', ''hasOwnProperty'',
      ''__lookupGetter__'', ''__lookupSetter__'', ''isPrototypeOf'', ''propertyIsEnumerable'',
      ''toString'', ''valueOf'', ''__proto__'', ''toLocaleString'']"

definition is_digit :: "char \<Rightarrow> bool" where
  "is_digit c = (CHR ''0'' \<le> c \<and> c \<le> CHR ''9'')"

definition digits_value :: "string \<Rightarrow> nat" where
  "digits_value ds = foldl (\<lambda>a c. 10 * a + (of_char c - 48)) 0 ds"

definition is_array_index :: "string \<Rightarrow> bool" where
  "is_array_index k =
     (k \<noteq> [] \<and> list_all is_digit k \<and> (k = ''0'' \<or> hd k \<noteq> CHR ''0'') \<and>
      digits_value k < 4294967295)"

definition array_length :: "(string \<times> nat) list \<Rightarrow> nat" where
  "array_length own =
     foldl max 0 (map (\<lambda>k. Suc (digits_value k)) (filter is_array_index (map fst own)))"

definition array_get :: "(string \<times> nat) list \<Rightarrow> string \<Rightarrow> property_value option" where
  "array_get own k =
     (if k = ''length'' then Some (NumberValue (array_length own))
      else
        (case map_of own k of
           Some p \<Rightarrow> Some (PromiseRef p)
         | None \<Rightarrow>
             if k \<in> set array_prototype_names \<or> k \<in> set object_prototype_names
             then Some (Inherited k)
             else None))"

text \<open>\<open>loadPackage(packageName, callback)\<close> starts \<open>view <name> --json\<close>.\<close>

definition loadPackage :: "string \<Rightarrow> pm_state \<Rightarrow> pm_state" where
  "loadPackage packageName st = runCommand [Str ''view'', Str packageName, Str ''--json''] st"

text \<open>
  \<open>getPackage(packageName)\<close>: what is found under the name when it is not \<open>null\<close> or
  \<open>undefined\<close>; otherwise a new promise, whose executor calls \<open>loadPackage\<close>, stored under
  the name.
\<close>

definition getPackage :: "string \<Rightarrow> pm_state \<Rightarrow> property_value \<times> pm_state" where
  "getPackage packageName st =
     (case array_get (packagePromises st) packageName of
        Some v \<Rightarrow> (v, st)
      | None \<Rightarrow>
          (case new_promise st of
             (p, st1) \<Rightarrow>
               (PromiseRef p,
                (loadPackage packageName st1)
                  \<lparr>packagePromises := (packageName, p) # packagePromises st1\<rparr>)))"

text \<open>
  The process of \<open>loadPackage\<close> comes back (\<open>runApmCommandAndParseJSON\<close>) and the callback
  of \<open>getPackage\<close> settles the promise.
\<close>

definition view_errorMessage :: "string \<Rightarrow> string" where
  "view_errorMessage packageName = ''Fetching package '' @ [CHR 0x27] @ packageName @ [CHR 0x27] @ '' failed.''"

fun getPackage_done :: "env \<Rightarrow> string \<Rightarrow> nat \<Rightarrow> outcome \<Rightarrow> pm_state \<Rightarrow> pm_state" where
  "getPackage_done e packageName p (Exit code out errs) st =
     (if code = 0 then
        (case JSON_parse e out of
           Inl parseMessage \<Rightarrow>
             settle p (Rejected (createJsonParseError (view_errorMessage packageName) parseMessage out)) st
         | Inr parsed \<Rightarrow> settle p (Fulfilled (if truthy parsed then parsed else Arr [])) st)
      else settle p (Rejected (exitError (view_errorMessage packageName) out errs)) st)"
| "getPackage_done e packageName p (WillThrowError m) st =
     settle p (Rejected (createProcessError (view_errorMessage packageName) m)) st"

text \<open>A sequence of calls of \<open>getPackage\<close>, and the processes started for one name.\<close>

definition getPackage_calls :: "string list \<Rightarrow> pm_state \<Rightarrow> pm_state" where
  "getPackage_calls names st = foldl (\<lambda>s n. snd (getPackage n s)) st names"

definition view_commands :: "string \<Rightarrow> effect list \<Rightarrow> nat" where
  "view_commands packageName tr =
     length (filter (\<lambda>x. x = RunCommand [Str ''view'', Str packageName, Str ''--json'',
                                          Str ''--no-color'']) tr)"

section \<open>The registry client\<close>

text \<open>
  \<open>localStorage\<close> under the client's keys holds the JSON text of the objects
  \<open>{data, createdOn}\<close> that \<open>request\<close> and \<open>getFeatured\<close> store; reading an item and parsing
  it gives the object back. \<open>fetchFromCache\<close> calls its callback with \<open>null\<close> as the error
  and with the data it decides on: the pair is what the callback receives. (In the first
  branch \<open>cached\<close> is not \<open>null\<close>, so the assignment of \<open>{data: {}}\<close> there never runs.)
\<close>

record cache_entry =
  entry_data :: jsval
  createdOn :: int

definition expiry :: int where
  "expiry = 1000 * 60 * 60 * 12"

definition cacheKeyForPath :: "string \<Rightarrow> string" where
  "cacheKeyForPath path = ''settings-view:'' @ path"

definition fetchFromCache ::
    "bool \<Rightarrow> int \<Rightarrow> (string \<Rightarrow> cache_entry option) \<Rightarrow> string \<Rightarrow> (string \<times> jsval) list
      \<Rightarrow> jsval \<times> jsval" where
  "fetchFromCache online now localStorage packagePath options =
     (let force = (if \<not> truthy (get_prop (Obj options) ''force'') then \<not> online
                   else truthy (get_prop (Obj options) ''force''))
      in case localStorage (cacheKeyForPath packagePath) of
           Some cached \<Rightarrow>
             if \<not> online \<or> force \<or> now - createdOn cached < expiry
             then (Null, entry_data cached)
             else (Null, Null)
         | None \<Rightarrow> if \<not> online then (Null, Obj []) else (Null, Null))"

subsection \<open>The avatar cache\<close>

text \<open>\<open>s.split('-')\<close>: the pieces between the dashes, at least one.\<close>

fun split_dash :: "string \<Rightarrow> string list" where
  "split_dash [] = [[]]"
| "split_dash (c # cs) =
     (if c = CHR ''-'' then [] # split_dash cs
      else (case split_dash cs of [] \<Rightarrow> [[c]] | p # ps \<Rightarrow> (c # p) # ps))"

text \<open>
  \<open>parseInt\<close> on the pieces it is applied to here, which the glob makes digits only: the
  number the leading digits spell, \<open>NaN\<close> when there is none. A comparison with \<open>NaN\<close> is
  false.
\<close>

definition parseInt :: "string \<Rightarrow> int option" where
  "parseInt s =
     (if takeWhile is_digit s = [] then None
      else Some (int (digits_value (takeWhile is_digit s))))"

text \<open>
  The files the pattern \<open><login>-*([0-9])\<close> of \<open>avatarGlob\<close> matches in the cache
  directory: the login, a dash, digits.
\<close>

definition avatarGlob :: "string \<Rightarrow> string \<Rightarrow> bool" where
  "avatarGlob login filename =
     (take (length login + 1) filename = login @ ''-'' \<and>
      list_all is_digit (drop (length login + 1) filename))"

definition path_join :: "string \<Rightarrow> string \<Rightarrow> string" where
  "path_join dir filename = dir @ ''/'' @ filename"

definition basename :: "string \<Rightarrow> string" where
  "basename path = rev (takeWhile (\<lambda>c. c \<noteq> CHR ''/'') (rev path))"

text \<open>
  \<open>cachedAvatar\<close>, the glob having succeeded: the loop over the matched paths, sorted as
  strings and reversed; the first whose stamp is less than \<open>expiry\<close> old at time \<open>now\<close>,
  or \<open>null\<close>. (Strings are compared character by character, which for the ASCII names of
  the cache is the order \<open>sort()\<close> uses.)
\<close>

fun first_fresh :: "int \<Rightarrow> string list \<Rightarrow> string option" where
  "first_fresh now [] = None"
| "first_fresh now (imagePath # files) =
     (case parseInt (last (split_dash (basename imagePath))) of
        Some stamp \<Rightarrow> if now - stamp < expiry then Some imagePath else first_fresh now files
      | None \<Rightarrow> first_fresh now files)"

definition cachedAvatar :: "int \<Rightarrow> string \<Rightarrow> string list \<Rightarrow> string \<Rightarrow> string option" where
  "cachedAvatar now cachePath dir login =
     first_fresh now (rev (sort (map (path_join cachePath) (filter (avatarGlob login) dir))))"

text \<open>
  What \<open>avatar(login, callback)\<close> ends in: the callback called with a path or with \<open>null\<close>,
  or a request for the image sent to the network (\<open>fetchAndCacheAvatar\<close> when online). The
  directory is read at time \<open>t_scan\<close>, the callback of \<open>cachedAvatar\<close> runs at \<open>t_cb\<close>.
\<close>

datatype avatar_result =
    Delivered "string option"
  | Requested string

definition fetchAndCacheAvatar :: "bool \<Rightarrow> string \<Rightarrow> avatar_result" where
  "fetchAndCacheAvatar online login = (if \<not> online then Delivered None else Requested login)"

definition avatar :: "bool \<Rightarrow> int \<Rightarrow> int \<Rightarrow> string \<Rightarrow> string list \<Rightarrow> string \<Rightarrow> avatar_result" where
  "avatar online t_scan t_cb cachePath dir login =
     (case cachedAvatar t_scan cachePath dir login of
        None \<Rightarrow> fetchAndCacheAvatar online login
      | Some cached \<Rightarrow>
          (let stale = (case parseInt (last (split_dash cached)) of
                          Some stamp \<Rightarrow> t_cb - stamp > expiry
                        | None \<Rightarrow> False)
           in if cached \<noteq> [] \<and> (\<not> stale \<or> \<not> online) then Delivered (Some cached)
              else fetchAndCacheAvatar online login))"

subsection \<open>The cleanup sweep\<close>

text \<open>
  \<open>expireAvatarCache\<close> collects the names of the directory in an object used as a
  dictionary from keys to lists of names. Under a key that \<open>Object.prototype\<close> defines the
  object already has a value, which is not replaced and has no \<open>push\<close>: the callback
  throws, before anything is deleted.
\<close>

definition key_of :: "string \<Rightarrow> string" where
  "key_of filename = join ''-'' (butlast (split_dash filename))"

definition child_of :: "string \<Rightarrow> string" where
  "child_of filename = key_of filename @ ''-'' @ last (split_dash filename)"

definition add_file ::
    "string \<Rightarrow> (string \<times> string list) list \<Rightarrow> js_error + (string \<times> string list) list" where
  "add_file filename files =
     (case map_of files (key_of filename) of
        Some children \<Rightarrow>
          Inr (map (\<lambda>(k, v). if k = key_of filename then (k, v @ [child_of filename]) else (k, v))
                 files)
      | None \<Rightarrow>
          if key_of filename \<in> set object_prototype_names then Inl TypeError
          else Inr (files @ [(key_of filename, [child_of filename])]))"

fun group_files ::
    "string list \<Rightarrow> (string \<times> string list) list \<Rightarrow> js_error + (string \<times> string list) list" where
  "group_files [] files = Inr files"
| "group_files (filename # rest) files =
     (case add_file filename files of
        Inl x \<Rightarrow> Inl x
      | Inr files' \<Rightarrow> group_files rest files')"

text \<open>
  The names handed to \<open>deleteAvatar\<close>: of each key's sorted names all but the last. (The
  keys are visited in the order they were added; \<open>for ... in\<close> visits keys that are array
  indices first, which changes the order of the deletions and not what is deleted.)
  \<open>readdir\<close> gives the names, or nothing when it fails.
\<close>

definition expireAvatarCache :: "string list option \<Rightarrow> js_error + string list" where
  "expireAvatarCache listing =
     (case group_files (case listing of None \<Rightarrow> [] | Some names \<Rightarrow> names) [] of
        Inl x \<Rightarrow> Inl x
      | Inr files \<Rightarrow> Inr (concat (map (\<lambda>(k, children). butlast (sort children)) files)))"

text \<open>The names collected under a key, in the order of the directory listing.\<close>

definition children_of :: "string \<Rightarrow> string list \<Rightarrow> string list" where
  "children_of k names = map child_of (filter (\<lambda>f. key_of f = k) names)"

text \<open>
  \<open>fs.unlink\<close> on a directory given by its names; \<open>ENOENT\<close> for a name that is not there
  is ignored by \<open>deleteAvatar\<close>. The sweep of a directory is the deletions done on it.
\<close>

definition unlink :: "string \<Rightarrow> string list \<Rightarrow> string list" where
  "unlink filename dir = removeAll filename dir"

definition sweep :: "string list \<Rightarrow> js_error + string list" where
  "sweep dir =
     (case expireAvatarCache (Some dir) of
        Inl x \<Rightarrow> Inl x
      | Inr names \<Rightarrow> Inr (fold unlink names dir))"

text \<open>
  The names in the directory after the sweep; when the callback throws nothing was
  deleted.
\<close>

definition surviving :: "string list \<Rightarrow> string set" where
  "surviving dir = (case sweep dir of Inl x \<Rightarrow> set dir | Inr dir' \<Rightarrow> set dir')"

subsection \<open>search\<close>

text \<open>
  The callback of the request of \<open>search\<close>, for a response without error. The filter is
  \<open>pkg => pkg.releases && releases.latest\<close>: where \<open>pkg.releases\<close> is truthy the identifier
  \<open>releases\<close> is evaluated, which nothing declares. An exception leaves the promise
  unsettled.
\<close>

fun search_filter :: "jsval list \<Rightarrow> js_error + jsval list" where
  "search_filter [] = Inr []"
| "search_filter (pkg # pkgs) =
     (case get_checked pkg ''releases'' of
        Inl x \<Rightarrow> Inl x
      | Inr r \<Rightarrow> if truthy r then Inl ReferenceError else search_filter pkgs)"

text \<open>
  \<open>Object.assign(metadata, {readme, downloads, stargazers_count})\<close>, and the comparator
  \<open>(a, b) => b.downloads - a.downloads\<close> on download counts that are numbers (a result
  that is not a number counts as 0).
\<close>

fun summary :: "jsval \<Rightarrow> js_error + jsval" where
  "summary pkg =
     (case get_prop pkg ''metadata'' of
        Undefined \<Rightarrow> Inl TypeError
      | Null \<Rightarrow> Inl TypeError
      | metadata \<Rightarrow>
          Inr (Obj ([(''readme'', get_prop pkg ''readme''),
                     (''downloads'', get_prop pkg ''downloads''),
                     (''stargazers_count'', get_prop pkg ''stargazers_count'')] @
                    own_props metadata)))"

fun summaries :: "jsval list \<Rightarrow> js_error + jsval list" where
  "summaries [] = Inr []"
| "summaries (pkg # pkgs) =
     (case summary pkg of
        Inl x \<Rightarrow> Inl x
      | Inr s \<Rightarrow> (case summaries pkgs of Inl x \<Rightarrow> Inl x | Inr ss \<Rightarrow> Inr (s # ss)))"

definition by_downloads :: "jsval \<Rightarrow> jsval \<Rightarrow> int" where
  "by_downloads a b =
     (case (get_prop b ''downloads'', get_prop a ''downloads'') of
        (Num y, Num x) \<Rightarrow> y - x
      | _ \<Rightarrow> 0)"

fun insert_sorted :: "jsval \<Rightarrow> jsval list \<Rightarrow> jsval list" where
  "insert_sorted a [] = [a]"
| "insert_sorted a (b # bs) =
     (if by_downloads a b \<le> 0 then a # b # bs else b # insert_sorted a bs)"

definition sort_by_downloads :: "jsval list \<Rightarrow> jsval list" where
  "sort_by_downloads xs = foldr insert_sorted xs []"

definition search_response :: "jsval \<Rightarrow> js_error + jsval list" where
  "search_response body =
     (case body of
        Arr pkgs \<Rightarrow>
          (case search_filter pkgs of
             Inl x \<Rightarrow> Inl x
           | Inr kept \<Rightarrow>
               (case summaries kept of
                  Inl x \<Rightarrow> Inl x
                | Inr ss \<Rightarrow> Inr (sort_by_downloads ss)))
      | _ \<Rightarrow> Inl TypeError)"

section \<open>Reading a trace\<close>

text \<open>The events of a trace in order, and their names.\<close>

fun emitted :: "effect \<Rightarrow> (string \<times> payload) list" where
  "emitted (Emit n p) = [(n, p)]"
| "emitted x = []"

definition events :: "effect list \<Rightarrow> (string \<times> payload) list" where
  "events tr = concat (map emitted tr)"

definition event_names :: "effect list \<Rightarrow> string list" where
  "event_names tr = map fst (events tr)"

text \<open>What an operation added to the trace of the state it started from.\<close>

definition added :: "pm_state \<Rightarrow> pm_state \<Rightarrow> effect list" where
  "added st st' = drop (length (trace st)) (trace st')"

text \<open>The prefix \<open>emitPackageEvent\<close> gives the events of a package.\<close>

definition kind :: "jsval \<Rightarrow> string" where
  "kind pack = (if is_theme pack then ''theme-'' else ''package-'')"

text \<open>The caller's callback is optional: absent, or one that records its call.\<close>

definition observer :: "bool \<Rightarrow> callback option" where
  "observer b = (if b then Some record_callback else None)"

text \<open>Whether a process ended well, and what it printed.\<close>

fun succeeded :: "outcome \<Rightarrow> bool" where
  "succeeded (Exit code out errs) = (code = 0)"
| "succeeded (WillThrowError m) = False"

fun printed :: "outcome \<Rightarrow> string" where
  "printed (Exit code out errs) = out"
| "printed (WillThrowError m) = []"

text \<open>The error a handler builds from its message and a process that did not end well.\<close>

fun process_error :: "string \<Rightarrow> outcome \<Rightarrow> err" where
  "process_error msg (Exit code out errs) = exitError msg out errs"
| "process_error msg (WillThrowError m) = createProcessError msg m"

text \<open>The error \<open>onError\<close> of \<open>install\<close> and of \<open>update\<close> emits: tagged by the theme flag.\<close>

definition tagged :: "descriptor \<Rightarrow> err \<Rightarrow> err" where
  "tagged pack error =
     error\<lparr>packageInstallError := Some (\<not> truthy (get_prop (Obj pack) ''theme''))\<rparr>"

text \<open>The terminal events of the three lifecycle operations.\<close>

definition terminal_names :: "string list" where
  "terminal_names =
     concat (map (\<lambda>a. [''theme-'' @ a, ''package-'' @ a])
       [''installed'', ''install-failed'', ''uninstalled'', ''uninstall-failed'',
        ''updated'', ''update-failed''])"

fun is_terminal :: "effect \<Rightarrow> bool" where
  "is_terminal (Emit n p) = (n \<in> set terminal_names)"
| "is_terminal x = False"

text \<open>
  The slot is emptied somewhere before the first terminal event of a sequence of effects.
\<close>

definition invalidated_before_terminal :: "effect list \<Rightarrow> bool" where
  "invalidated_before_terminal tr =
     (SetLoadOutdated Null 0 \<in> set (takeWhile (\<lambda>x. \<not> is_terminal x) tr))"

fun is_slot_write :: "effect \<Rightarrow> bool" where
  "is_slot_write (SetLoadOutdated v t) = True"
| "is_slot_write x = False"

text \<open>
  The packages the output of a process parses to when \<open>loadOutdated\<close> takes it for a list:
  the process ended with code 0 and its output is JSON for an array (or for a falsy value,
  read as the empty array).
\<close>

fun parsed_packages :: "env \<Rightarrow> outcome \<Rightarrow> jsval list option" where
  "parsed_packages e (Exit code out errs) =
     (if code = 0 then
        (case JSON_parse e out of
           Inl parseMessage \<Rightarrow> None
         | Inr parsed \<Rightarrow>
             (case (if truthy parsed then parsed else Arr []) of
                Arr packages \<Rightarrow> Some packages
              | _ \<Rightarrow> None))
      else None)"
| "parsed_packages e (WillThrowError m) = None"

text \<open>A package survives the pinned-version filter when its name is not on the list.\<close>

definition unpinned :: "env \<Rightarrow> jsval \<Rightarrow> bool" where
  "unpinned e pack = (\<not> array_includes (versionPinnedPackages e) (get_prop pack ''name''))"

section \<open>A package manager to run\<close>

text \<open>
  The state the constructor leaves (the slot empty, nothing memoized) on a host with no
  packages, and surroundings whose parser knows two outputs of the tool.
\<close>

definition new_PackageManager :: pm_state where
  "new_PackageManager =
     \<lparr>loadOutdated_slot = \<lparr>slot_value = Null, slot_expiry = 0\<rparr>,
      packagePromises = [],
      promises = [],
      atom_packages = \<lparr>loaded = {}, active = {}, disabled = {}\<rparr>,
      trace = []\<rparr>"

definition foo_installed :: jsval where
  "foo_installed =
     Arr [Obj [(''metadata'', Obj [(''name'', Str ''foo''), (''version'', Str ''2.0.0'')])]]"

definition outdated_list :: jsval where
  "outdated_list =
     Arr [Obj [(''name'', Str ''foo''), (''latestVersion'', Str ''2.0.0'')],
          Obj [(''name'', Str ''bar''), (''latestVersion'', Str ''1.1.0'')],
          Obj [(''name'', Str ''solar-ui''), (''theme'', Str ''ui'')]]"

definition installed_json :: string where
  \<open>installed_json = ''[{"metadata":{"name":"foo","version":"2.0.0"}}]''\<close>

definition outdated_json :: string where
  \<open>outdated_json =
     ''[{"name":"foo","latestVersion":"2.0.0"},{"name":"bar","latestVersion":"1.1.0"},{"name":"solar-ui","theme":"ui"}]''\<close>

definition example_env :: env where
  "example_env =
     \<lparr>JSON_parse = (\<lambda>s. if s = installed_json then Inr foo_installed
                          else if s = outdated_json then Inr outdated_list
                          else Inl ''Unexpected token''),
      atom_version = ''1.28.0'',
      semver_valid = True,
      versionPinnedPackages = [Str ''bar'']\<rparr>"

text \<open>
  The state after one load of the outdated packages at time 1000 from the fresh package
  manager, the tool ending with code 0 and printing \<open>outdated_json\<close>.
\<close>

definition loaded_state :: pm_state where
  "loaded_state =
     (case loadOutdated_done example_env record_callback 1000 (Exit 0 outdated_json [])
             (loadOutdated example_env False record_callback 1000 new_PackageManager) of
        Inr st \<Rightarrow> st
      | Inl x \<Rightarrow> new_PackageManager)"

text \<open>The fresh package manager with a list in the slot that expires at time 600000.\<close>

definition cached_state :: pm_state where
  "cached_state =
     new_PackageManager
       \<lparr>loadOutdated_slot :=
          \<lparr>slot_value = Arr [Obj [(''name'', Str ''foo'')]], slot_expiry = 600000\<rparr>\<rparr>"

section \<open>What each step leaves alone\<close>

text \<open>
  The steps of the operations touch one part of the state each; these equations say what
  they do to the trace, to the promises and to the slot.
\<close>

lemma events_append [simp]: "events (xs @ ys) = events xs @ events ys"
  by (simp add: events_def)

lemma events_simps [simp]:
  "events [] = []"
  "events (Emit n p # xs) = (n, p) # events xs"
  "events (Callback e v # xs) = events xs"
  "events (RunCommand a # xs) = events xs"
  "events (ConsoleError m # xs) = events xs"
  "events (SetLoadOutdated v t # xs) = events xs"
  by (simp_all add: events_def)

lemma added_append [simp]: "trace st' = trace st @ xs \<Longrightarrow> added st st' = xs"
  by (simp add: added_def)

lemmas host_defs = unload_def unloadPackage_def deactivatePackage_def activatePackage_def
  atom_loadPackage_def removePackageNameFromDisabledPackages_def

lemma host_frame [simp]:
  "trace (unload n st) = trace st" "promises (unload n st) = promises st"
  "loadOutdated_slot (unload n st) = loadOutdated_slot st"
  "trace (deactivatePackage n st) = trace st" "promises (deactivatePackage n st) = promises st"
  "loadOutdated_slot (deactivatePackage n st) = loadOutdated_slot st"
  "trace (activatePackage n st) = trace st" "promises (activatePackage n st) = promises st"
  "loadOutdated_slot (activatePackage n st) = loadOutdated_slot st"
  "trace (atom_loadPackage n st) = trace st" "promises (atom_loadPackage n st) = promises st"
  "loadOutdated_slot (atom_loadPackage n st) = loadOutdated_slot st"
  "trace (removePackageNameFromDisabledPackages n st) = trace st"
  "promises (removePackageNameFromDisabledPackages n st) = promises st"
  "loadOutdated_slot (removePackageNameFromDisabledPackages n st) = loadOutdated_slot st"
  by (simp_all add: host_defs)

lemma emit_frame [simp]:
  "trace (emit n p st) = trace st @ [Emit n p]"
  "promises (emit n p st) = promises st"
  "loadOutdated_slot (emit n p st) = loadOutdated_slot st"
  "trace (emitPackageEvent a pack error st) = trace st @ [Emit (kind pack @ a) (PackEvent pack error)]"
  "promises (emitPackageEvent a pack error st) = promises st"
  "loadOutdated_slot (emitPackageEvent a pack error st) = loadOutdated_slot st"
  "trace (runCommand args st) = trace st @ [RunCommand (args @ [Str ''--no-color''])]"
  "promises (runCommand args st) = promises st"
  "loadOutdated_slot (runCommand args st) = loadOutdated_slot st"
  by (simp_all add: emit_def emitPackageEvent_def runCommand_def kind_def)

lemma cache_frame [simp]:
  "trace (setLoadOutdated v t st) = trace st @ [SetLoadOutdated v t]"
  "promises (setLoadOutdated v t st) = promises st"
  "loadOutdated_slot (setLoadOutdated v t st) = \<lparr>slot_value = v, slot_expiry = t\<rparr>"
  "trace (clearOutdatedCache st) = trace st @ [SetLoadOutdated Null 0]"
  "promises (clearOutdatedCache st) = promises st"
  "loadOutdated_slot (clearOutdatedCache st) = \<lparr>slot_value = Null, slot_expiry = 0\<rparr>"
  by (simp_all add: setLoadOutdated_def clearOutdatedCache_def)

lemma settle_frame [simp]:
  "trace (settle i v st) = trace st"
  "loadOutdated_slot (settle i v st) = loadOutdated_slot st"
  by (simp_all add: settle_def)

lemma record_callback_frame [simp]:
  "trace (record_callback e v st) = trace st @ [Callback e v]"
  "promises (record_callback e v st) = promises st"
  "loadOutdated_slot (record_callback e v st) = loadOutdated_slot st"
  by (simp_all add: record_callback_def)

lemma observer_frame [simp]:
  "trace (call_optional (observer b) e st) = trace st @ (if b then [Callback e Undefined] else [])"
  "promises (call_optional (observer b) e st) = promises st"
  "loadOutdated_slot (call_optional (observer b) e st) = loadOutdated_slot st"
  by (simp_all add: observer_def)

section \<open>The outdated-packages cache\<close>

lemma trace_emit_all [simp]:
  "trace (emit_all a ps st) = trace st @ map (\<lambda>p. Emit (kind p @ a) (PackEvent p None)) ps"
  unfolding emit_all_def by (induction ps arbitrary: st) simp_all

lemma slot_emit_all [simp]: "loadOutdated_slot (emit_all a ps st) = loadOutdated_slot st"
  unfolding emit_all_def by (induction ps arbitrary: st) simp_all

lemma events_map_Emit [simp]: "events (map (\<lambda>p. Emit (f p) (g p)) ps) = map (\<lambda>p. (f p, g p)) ps"
  by (induction ps) simp_all

lemma filter_unpinned_filter:
  "filter_unpinned (versionPinnedPackages e) ps = Inr ups \<Longrightarrow> ups = filter (unpinned e) ps"
proof (induction ps arbitrary: ups)
  case Nil
  then show ?case by simp
next
  case (Cons p ps)
  then show ?case
    by (cases p) (auto simp: unpinned_def split: sum.splits if_splits)
qed

lemma loadOutdated_done_events:
  assumes "loadOutdated_done e record_callback now oc st = Inr st'"
  shows "events (trace st') = events (trace st) @
           (case parsed_packages e oc of
              Some ps \<Rightarrow> map (\<lambda>p. (kind p @ ''update-available'', PackEvent p None)) (filter (unpinned e) ps)
            | None \<Rightarrow> [])"
proof (cases oc)
  case (WillThrowError m)
  with assms show ?thesis by (auto simp: handleProcessErrors_def)
next
  case (Exit code out errs)
  show ?thesis
  proof (cases "code = 0")
    case False
    with Exit assms show ?thesis by (auto simp: loadOutdated_exit_def)
  next
    case True
    show ?thesis
    proof (cases "JSON_parse e out")
      case (Inl m)
      with True Exit assms show ?thesis by (auto simp: loadOutdated_exit_def)
    next
      case (Inr parsed)
      show ?thesis
      proof (cases "if truthy parsed then parsed else Arr []")
        case (Arr ps)
        with Inr True Exit assms obtain ups where
          u: "filter_unpinned (versionPinnedPackages e) ps = Inr ups" and
          s: "st' = record_callback None (Arr ups)
                     (emit_all ''update-available'' ups (setLoadOutdated (Arr ups) (now + CACHE_EXPIRY) st))"
          by (auto simp: loadOutdated_exit_def split: sum.splits)
        from u have "ups = filter (unpinned e) ps" by (rule filter_unpinned_filter)
        with s Arr Inr True Exit show ?thesis by simp
      qed (use Inr True Exit assms in \<open>auto simp: loadOutdated_exit_def\<close>)
    qed
  qed
qed

text \<open>
  What the handler leaves in the slot: the filtered list with an expiry ten minutes after
  the handler ran when the load succeeded, and what was there otherwise.
\<close>

lemma loadOutdated_done_slot:
  assumes "loadOutdated_done e record_callback now oc st = Inr st'"
  shows "loadOutdated_slot st' =
           (case parsed_packages e oc of
              Some ps \<Rightarrow> \<lparr>slot_value = Arr (filter (unpinned e) ps), slot_expiry = now + CACHE_EXPIRY\<rparr>
            | None \<Rightarrow> loadOutdated_slot st)"
proof (cases oc)
  case (WillThrowError m)
  with assms show ?thesis by (auto simp: handleProcessErrors_def)
next
  case (Exit code out errs)
  show ?thesis
  proof (cases "code = 0")
    case False
    with Exit assms show ?thesis by (auto simp: loadOutdated_exit_def)
  next
    case True
    show ?thesis
    proof (cases "JSON_parse e out")
      case (Inl m)
      with True Exit assms show ?thesis by (auto simp: loadOutdated_exit_def)
    next
      case (Inr parsed)
      show ?thesis
      proof (cases "if truthy parsed then parsed else Arr []")
        case (Arr ps)
        with Inr True Exit assms obtain ups where
          u: "filter_unpinned (versionPinnedPackages e) ps = Inr ups" and
          s: "st' = record_callback None (Arr ups)
                     (emit_all ''update-available'' ups (setLoadOutdated (Arr ups) (now + CACHE_EXPIRY) st))"
          by (auto simp: loadOutdated_exit_def split: sum.splits)
        from u have "ups = filter (unpinned e) ps" by (rule filter_unpinned_filter)
        with s Arr Inr True Exit show ?thesis by simp
      qed (use Inr True Exit assms in \<open>auto simp: loadOutdated_exit_def\<close>)
    qed
  qed
qed

text \<open>
  Claim C3. A call \<open>loadOutdated(false, callback)\<close> made while the slot holds the list
  \<open>v\<close> that a load at time \<open>t0\<close> wrote (the expiry it wrote is \<open>t0 + CACHE_EXPIRY\<close>) and
  less than ten minutes after \<open>t0\<close> hands \<open>v\<close> to the callback and does nothing else: no
  process is started. A call with \<open>clearCache\<close> true, in whatever state, empties the slot
  and starts the process, and does not call the callback.
\<close>

theorem C3_loadOutdated_cache:
  assumes "loadOutdated_slot st = \<lparr>slot_value = Arr v, slot_expiry = t0 + CACHE_EXPIRY\<rparr>"
    and "now - t0 < CACHE_EXPIRY"
  shows "loadOutdated e False cb now st = cb None (Arr v) st \<and>
         added st (loadOutdated e False record_callback now st) = [Callback None (Arr v)] \<and>
         loadOutdated e True cb now st' = runCommand (outdated_args e) (clearOutdatedCache st') \<and>
         added st' (loadOutdated e True cb now st') =
           [SetLoadOutdated Null 0, RunCommand (outdated_args e @ [Str ''--no-color''])] \<and>
         loadOutdated_slot (loadOutdated e True cb now st') = \<lparr>slot_value = Null, slot_expiry = 0\<rparr>"
  using assms by (simp add: loadOutdated_def)

text \<open>
  Claim C10. A call of \<open>loadOutdated\<close> served from the slot (\<open>clearCache\<close> false, a truthy
  value, the expiry still ahead) emits nothing and leaves the slot as it was; the
  synchronous part of \<open>loadOutdated\<close> never emits. When the process comes back and its
  handler returns, the events added are one \<open>update-available\<close> event for each package of
  the parsed list that survives the pinned-version filter, in the list's order, when the
  process ended with code 0 and printed a list, and none otherwise.
\<close>

theorem C10_update_available_events:
  "(truthy (slot_value (loadOutdated_slot st)) \<and> now < slot_expiry (loadOutdated_slot st) \<longrightarrow>
      events (trace (loadOutdated e False record_callback now st)) = events (trace st) \<and>
      loadOutdated_slot (loadOutdated e False record_callback now st) = loadOutdated_slot st) \<and>
   events (trace (loadOutdated e clearCache record_callback now st)) = events (trace st) \<and>
   (loadOutdated_done e record_callback t oc st0 = Inr st' \<longrightarrow>
      events (trace st') = events (trace st0) @
        (case parsed_packages e oc of
           Some ps \<Rightarrow> map (\<lambda>p. (kind p @ ''update-available'', PackEvent p None)) (filter (unpinned e) ps)
         | None \<Rightarrow> []))"
  using loadOutdated_done_events [of e t oc st0 st']
  by (simp add: loadOutdated_def)


lemma json_distinct [simp]: "outdated_json \<noteq> installed_json" "installed_json \<noteq> outdated_json"
  by (simp_all add: outdated_json_def installed_json_def)

lemma loaded_state_eq:
  "loaded_state =
     new_PackageManager
       \<lparr>loadOutdated_slot :=
          \<lparr>slot_value = Arr [Obj [(''name'', Str ''foo''), (''latestVersion'', Str ''2.0.0'')],
                             Obj [(''name'', Str ''solar-ui''), (''theme'', Str ''ui'')]],
           slot_expiry = 601000\<rparr>,
        trace :=
          [RunCommand [Str ''outdated'', Str ''--json'', Str ''--compatible'', Str ''1.28.0'',
                       Str ''--no-color''],
           SetLoadOutdated
             (Arr [Obj [(''name'', Str ''foo''), (''latestVersion'', Str ''2.0.0'')],
                   Obj [(''name'', Str ''solar-ui''), (''theme'', Str ''ui'')]]) 601000,
           Emit ''package-update-available''
             (PackEvent (Obj [(''name'', Str ''foo''), (''latestVersion'', Str ''2.0.0'')]) None),
           Emit ''theme-update-available''
             (PackEvent (Obj [(''name'', Str ''solar-ui''), (''theme'', Str ''ui'')]) None),
           Callback None
             (Arr [Obj [(''name'', Str ''foo''), (''latestVersion'', Str ''2.0.0'')],
                   Obj [(''name'', Str ''solar-ui''), (''theme'', Str ''ui'')]])]\<rparr>"
  by (simp add: loaded_state_def loadOutdated_def loadOutdated_exit_def new_PackageManager_def
      example_env_def outdated_list_def outdated_args_def runCommand_def setLoadOutdated_def
      emit_all_def emitPackageEvent_def emit_def is_theme_def record_callback_def
      array_includes_def CACHE_EXPIRY_def)

theorem C3_loadOutdated_cache_witness:
  "loadOutdated_slot loaded_state =
     \<lparr>slot_value = Arr [Obj [(''name'', Str ''foo''), (''latestVersion'', Str ''2.0.0'')],
                        Obj [(''name'', Str ''solar-ui''), (''theme'', Str ''ui'')]],
      slot_expiry = 1000 + CACHE_EXPIRY\<rparr> \<and>
   (600999::int) - 1000 < CACHE_EXPIRY \<and>
   added loaded_state (loadOutdated example_env False record_callback 600999 loaded_state) =
     [Callback None (Arr [Obj [(''name'', Str ''foo''), (''latestVersion'', Str ''2.0.0'')],
                          Obj [(''name'', Str ''solar-ui''), (''theme'', Str ''ui'')]])] \<and>
   added loaded_state (loadOutdated example_env True record_callback 600999 loaded_state) =
     [SetLoadOutdated Null 0,
      RunCommand [Str ''outdated'', Str ''--json'', Str ''--compatible'', Str ''1.28.0'',
                  Str ''--no-color'']]"
proof -
  have slot: "loadOutdated_slot loaded_state =
     \<lparr>slot_value = Arr [Obj [(''name'', Str ''foo''), (''latestVersion'', Str ''2.0.0'')],
                        Obj [(''name'', Str ''solar-ui''), (''theme'', Str ''ui'')]],
      slot_expiry = 1000 + CACHE_EXPIRY\<rparr>"
    by (simp add: loaded_state_eq CACHE_EXPIRY_def)
  have fresh: "(600999::int) - 1000 < CACHE_EXPIRY"
    by (simp add: CACHE_EXPIRY_def)
  show ?thesis
    using slot fresh
      C3_loadOutdated_cache [OF slot fresh, where e = example_env and cb = record_callback and st' = loaded_state]
    by (simp add: outdated_args_def example_env_def)
qed

theorem C10_update_available_events_witness:
  "loadOutdated_done example_env record_callback 1000 (Exit 0 outdated_json [])
     (loadOutdated example_env False record_callback 1000 new_PackageManager) = Inr loaded_state \<and>
   events (trace loaded_state) =
     [(''package-update-available'',
       PackEvent (Obj [(''name'', Str ''foo''), (''latestVersion'', Str ''2.0.0'')]) None),
      (''theme-update-available'',
       PackEvent (Obj [(''name'', Str ''solar-ui''), (''theme'', Str ''ui'')]) None)] \<and>
   truthy (slot_value (loadOutdated_slot loaded_state)) \<and>
   600999 < slot_expiry (loadOutdated_slot loaded_state) \<and>
   events (trace (loadOutdated example_env False record_callback 600999 loaded_state)) =
     events (trace loaded_state) \<and>
   loadOutdated_slot (loadOutdated example_env False record_callback 600999 loaded_state) =
     loadOutdated_slot loaded_state"
proof -
  have run: "loadOutdated_done example_env record_callback 1000 (Exit 0 outdated_json [])
     (loadOutdated example_env False record_callback 1000 new_PackageManager) = Inr loaded_state"
    by (simp add: loaded_state_def loadOutdated_exit_def example_env_def outdated_list_def
        array_includes_def)
  have hit: "truthy (slot_value (loadOutdated_slot loaded_state)) \<and>
             600999 < slot_expiry (loadOutdated_slot loaded_state)"
    by (simp add: loaded_state_eq)
  show ?thesis
    using run hit
      C10_update_available_events [where st = loaded_state and now = 600999 and e = example_env and clearCache = False
             and t = 1000 and oc = "Exit 0 outdated_json []"
             and ?st0.0 = "loadOutdated example_env False record_callback 1000 new_PackageManager"
             and st' = loaded_state]
    by (simp add: loaded_state_eq)
qed

section \<open>The handlers of the lifecycle operations\<close>

lemma install_begin_frame [simp]:
  "ic_pack (fst (install_begin pack st)) = pack"
  "trace (snd (install_begin pack st)) =
     trace st @ [Emit (kind (Obj pack) @ ''installing'') (PackEvent (Obj pack) None),
                 RunCommand [Str ''install'', nameWithVersion pack, Str ''--json'', Str ''--no-color'']]"
  "promises (snd (install_begin pack st)) = promises st"
  "loadOutdated_slot (snd (install_begin pack st)) = loadOutdated_slot st"
  by (simp_all add: install_begin_def Let_def)

lemma uninstall_begin_frame [simp]:
  "trace (uninstall_begin pack st) =
     trace st @ [Emit (kind (Obj pack) @ ''uninstalling'') (PackEvent (Obj pack) None),
                 RunCommand [Str ''uninstall'', Str ''--hard'', get_prop (Obj pack) ''name'',
                             Str ''--no-color'']]"
  "promises (uninstall_begin pack st) = promises st"
  "loadOutdated_slot (uninstall_begin pack st) = loadOutdated_slot st"
  by (simp_all add: uninstall_begin_def Let_def)

lemma update_begin_frame [simp]:
  "trace (update_begin pack newVersion st) =
     trace st @ [Emit (kind (Obj pack) @ ''updating'') (PackEvent (Obj pack) None),
                 RunCommand (update_args pack newVersion @ [Str ''--no-color''])]"
  "promises (update_begin pack newVersion st) = promises st"
  "loadOutdated_slot (update_begin pack newVersion st) = loadOutdated_slot st"
  by (simp_all add: update_begin_def)

text \<open>Each handler, by the way its process ended.\<close>

lemma install_done_succeeded:
  "succeeded oc \<Longrightarrow>
   install_done e c cb oc st =
     emitPackageEvent ''installed'' (Obj (install_merged e (ic_pack c) (printed oc))) None
       (call_optional cb None
         ((if ic_activateOnSuccess c
           then activatePackage (get_prop (Obj (install_merged e (ic_pack c) (printed oc))) ''name'')
           else atom_loadPackage (get_prop (Obj (install_merged e (ic_pack c) (printed oc))) ''name''))
          (clearOutdatedCache st)))"
  by (cases oc) (simp_all add: install_exit_def Let_def)

lemma install_done_failed:
  "\<not> succeeded oc \<Longrightarrow>
   install_done e c cb oc st =
     call_optional cb (Some (tagged (ic_pack c) (process_error (install_errorMessage (ic_pack c)) oc)))
       (emitPackageEvent ''install-failed'' (Obj (ic_pack c))
         (Some (tagged (ic_pack c) (process_error (install_errorMessage (ic_pack c)) oc)))
         (case oc of
            Exit code out errs \<Rightarrow>
              if ic_activateOnFailure c then activatePackage (get_prop (Obj (ic_pack c)) ''name'') st
              else st
          | WillThrowError m \<Rightarrow> st))"
  by (cases oc)
     (simp_all add: install_exit_def install_onError_def handleProcessErrors_def tagged_def Let_def)

lemma uninstall_done_succeeded:
  "succeeded oc \<Longrightarrow>
   uninstall_done pack cb oc st =
     emitPackageEvent ''uninstalled'' (Obj pack) None
       (call_optional cb None
         (removePackageNameFromDisabledPackages (get_prop (Obj pack) ''name'')
           (unload (get_prop (Obj pack) ''name'') (clearOutdatedCache st))))"
  by (cases oc) (simp_all add: uninstall_exit_def Let_def)

lemma uninstall_done_failed:
  "\<not> succeeded oc \<Longrightarrow>
   uninstall_done pack cb oc st =
     call_optional cb (Some (process_error (uninstall_errorMessage pack) oc))
       (emitPackageEvent ''uninstall-failed'' (Obj pack)
         (Some (process_error (uninstall_errorMessage pack) oc)) st)"
  by (cases oc)
     (simp_all add: uninstall_exit_def uninstall_onError_def handleProcessErrors_def Let_def)

lemma update_done_succeeded:
  "succeeded oc \<Longrightarrow>
   update_done pack newVersion cb oc st =
     emitPackageEvent ''updated'' (Obj pack) None (call_optional cb None (clearOutdatedCache st))"
  by (cases oc) (simp_all add: update_exit_def)

lemma update_done_failed:
  "\<not> succeeded oc \<Longrightarrow>
   update_done pack newVersion cb oc st =
     call_optional cb (Some (tagged pack (process_error (update_errorMessage pack newVersion) oc)))
       (emitPackageEvent ''update-failed'' (Obj pack)
         (Some (tagged pack (process_error (update_errorMessage pack newVersion) oc))) st)"
  by (cases oc)
     (simp_all add: update_exit_def update_onError_def handleProcessErrors_def tagged_def Let_def)

lemmas done_eqs =
  install_done_succeeded install_done_failed uninstall_done_succeeded uninstall_done_failed
  update_done_succeeded update_done_failed

lemma install_eq: "install e pack cb oc st =
    install_done e (fst (install_begin pack st)) cb oc (snd (install_begin pack st))"
  by (simp add: install_def split: prod.splits)

lemma activateOnFailure_frame [simp]:
  "trace (case oc of Exit code out errs \<Rightarrow> if b then activatePackage n st else st
                    | WillThrowError m \<Rightarrow> st) = trace st"
  "loadOutdated_slot (case oc of Exit code out errs \<Rightarrow> if b then activatePackage n st else st
                    | WillThrowError m \<Rightarrow> st) = loadOutdated_slot st"
  "promises (case oc of Exit code out errs \<Rightarrow> if b then activatePackage n st else st
                    | WillThrowError m \<Rightarrow> st) = promises st"
  by (cases oc; simp)+

lemma install_done_names:
  "event_names (added st (install_done e c (observer b) oc st)) =
     [if succeeded oc then kind (Obj (install_merged e (ic_pack c) (printed oc))) @ ''installed''
      else kind (Obj (ic_pack c)) @ ''install-failed'']"
  by (cases "succeeded oc") (simp_all add: done_eqs event_names_def)

lemma uninstall_done_names:
  "event_names (added st (uninstall_done pack (observer b) oc st)) =
     [kind (Obj pack) @ (if succeeded oc then ''uninstalled'' else ''uninstall-failed'')]"
  by (cases "succeeded oc") (simp_all add: done_eqs event_names_def)

lemma update_done_names:
  "event_names (added st (update_done pack newVersion (observer b) oc st)) =
     [kind (Obj pack) @ (if succeeded oc then ''updated'' else ''update-failed'')]"
  by (cases "succeeded oc") (simp_all add: done_eqs event_names_def)

lemma install_names:
  "event_names (added st (install e pack (observer b) oc st)) =
     [kind (Obj pack) @ ''installing'',
      if succeeded oc then kind (Obj (install_merged e pack (printed oc))) @ ''installed''
      else kind (Obj pack) @ ''install-failed'']"
  by (cases "succeeded oc") (simp_all add: install_eq done_eqs event_names_def)

lemma uninstall_names:
  "event_names (added st (uninstall pack (observer b) oc st)) =
     [kind (Obj pack) @ ''uninstalling'',
      kind (Obj pack) @ (if succeeded oc then ''uninstalled'' else ''uninstall-failed'')]"
  by (cases "succeeded oc") (simp_all add: uninstall_def done_eqs event_names_def)

lemma update_names:
  "event_names (added st (update pack newVersion (observer b) oc st)) =
     [kind (Obj pack) @ ''updating'',
      kind (Obj pack) @ (if succeeded oc then ''updated'' else ''update-failed'')]"
  by (cases "succeeded oc") (simp_all add: update_def done_eqs event_names_def)

text \<open>
  Claim C1. Each process comes back once, with an exit code or with a failure to spawn.
  Whatever it comes back with, the events an installation, an uninstallation or an update
  adds to the emitter are exactly two: the \<open>-ing\<close> event, then one terminal event, which is
  the success event when the exit code is 0 and the \<open>-failed\<close> event otherwise (any other
  exit code, or a spawn failure). The handlers, run in whatever state the package manager
  is in when the process comes back, add the terminal event and no other. The prefix
  \<open>theme-\<close> or \<open>package-\<close> of the success event of an installation is read from the
  descriptor with the installed metadata merged in.
\<close>

theorem C1_lifecycle_event_order:
  "event_names (added st (install e pack (observer b) oc st)) =
     [kind (Obj pack) @ ''installing'',
      if succeeded oc then kind (Obj (install_merged e pack (printed oc))) @ ''installed''
      else kind (Obj pack) @ ''install-failed''] \<and>
   event_names (added st (uninstall pack (observer b) oc st)) =
     [kind (Obj pack) @ ''uninstalling'',
      kind (Obj pack) @ (if succeeded oc then ''uninstalled'' else ''uninstall-failed'')] \<and>
   event_names (added st (update pack newVersion (observer b) oc st)) =
     [kind (Obj pack) @ ''updating'',
      kind (Obj pack) @ (if succeeded oc then ''updated'' else ''update-failed'')] \<and>
   event_names (added st' (install_done e (fst (install_begin pack st)) (observer b) oc st')) =
     [if succeeded oc then kind (Obj (install_merged e pack (printed oc))) @ ''installed''
      else kind (Obj pack) @ ''install-failed''] \<and>
   event_names (added st' (uninstall_done pack (observer b) oc st')) =
     [kind (Obj pack) @ (if succeeded oc then ''uninstalled'' else ''uninstall-failed'')] \<and>
   event_names (added st' (update_done pack newVersion (observer b) oc st')) =
     [kind (Obj pack) @ (if succeeded oc then ''updated'' else ''update-failed'')]"
  by (simp only: install_names uninstall_names update_names install_done_names
      uninstall_done_names update_done_names install_begin_frame simp_thms)

theorem C1_lifecycle_event_order_witness:
  "event_names (added new_PackageManager
     (install example_env [(''name'', Str ''foo''), (''version'', Str ''2.0.0'')] (observer True)
        (Exit 0 installed_json []) new_PackageManager)) =
     [''package-installing'', ''package-installed''] \<and>
   event_names (added new_PackageManager
     (uninstall [(''name'', Str ''solar-ui''), (''theme'', Str ''ui'')] (observer True)
        (WillThrowError ''spawn apm ENOENT'') new_PackageManager)) =
     [''theme-uninstalling'', ''theme-uninstall-failed''] \<and>
   event_names (added new_PackageManager
     (update [(''name'', Str ''foo'')] (Str ''2.0.0'') (observer False)
        (Exit 1 [] ''failed'') new_PackageManager)) =
     [''package-updating'', ''package-update-failed'']"
  using
    C1_lifecycle_event_order [where st = new_PackageManager and e = example_env
      and pack = "[(''name'', Str ''foo''), (''version'', Str ''2.0.0'')]" and b = True
      and oc = "Exit 0 installed_json []"]
    C1_lifecycle_event_order [where st = new_PackageManager
      and pack = "[(''name'', Str ''solar-ui''), (''theme'', Str ''ui'')]" and b = True
      and oc = "WillThrowError ''spawn apm ENOENT''"]
    C1_lifecycle_event_order [where st = new_PackageManager
      and pack = "[(''name'', Str ''foo'')]" and newVersion = "Str ''2.0.0''" and b = False
      and oc = "Exit 1 [] ''failed''"]
  by (simp add: kind_def is_theme_def install_merged_def example_env_def foo_installed_def)

section \<open>The cache and the lifecycle operations\<close>

lemma terminal_kind [simp]:
  "(kind p @ a \<in> set terminal_names) =
     (a \<in> {''installed'', ''install-failed'', ''uninstalled'', ''uninstall-failed'',
            ''updated'', ''update-failed''})"
  by (auto simp: kind_def terminal_names_def)

lemma C4_success:
  assumes "succeeded oc"
  shows "invalidated_before_terminal (added st (install e pack (observer b) oc st))"
    and "invalidated_before_terminal (added st (uninstall pack (observer b) oc st))"
    and "invalidated_before_terminal (added st (update pack newVersion (observer b) oc st))"
    and "loadOutdated_slot (install e pack (observer b) oc st) = \<lparr>slot_value = Null, slot_expiry = 0\<rparr>"
    and "loadOutdated_slot (uninstall pack (observer b) oc st) = \<lparr>slot_value = Null, slot_expiry = 0\<rparr>"
    and "loadOutdated_slot (update pack newVersion (observer b) oc st) = \<lparr>slot_value = Null, slot_expiry = 0\<rparr>"
  using assms
  by (simp_all add: install_eq uninstall_def update_def done_eqs invalidated_before_terminal_def)

lemma C4_failure:
  assumes "\<not> succeeded oc"
  shows "filter is_slot_write (added st (install e pack (observer b) oc st)) = []"
    and "filter is_slot_write (added st (uninstall pack (observer b) oc st)) = []"
    and "filter is_slot_write (added st (update pack newVersion (observer b) oc st)) = []"
    and "loadOutdated_slot (install e pack (observer b) oc st) = loadOutdated_slot st"
    and "loadOutdated_slot (uninstall pack (observer b) oc st) = loadOutdated_slot st"
    and "loadOutdated_slot (update pack newVersion (observer b) oc st) = loadOutdated_slot st"
  using assms
  by (simp_all add: install_eq uninstall_def update_def done_eqs)

text \<open>
  Claim C4, as the code has it. When the process of an installation, an uninstallation or
  an update ends with code 0, the slot of the outdated packages is emptied before the
  terminal event of the operation is emitted, and it is empty when the operation is over.
  When the process ends with another code or cannot be spawned, the operation does not
  write the slot at all: the slot is what it was.
\<close>

theorem C4_cache_invalidated_on_success:
  "(succeeded oc \<longrightarrow>
      invalidated_before_terminal (added st (install e pack (observer b) oc st)) \<and>
      invalidated_before_terminal (added st (uninstall pack (observer b) oc st)) \<and>
      invalidated_before_terminal (added st (update pack newVersion (observer b) oc st)) \<and>
      loadOutdated_slot (install e pack (observer b) oc st) = \<lparr>slot_value = Null, slot_expiry = 0\<rparr> \<and>
      loadOutdated_slot (uninstall pack (observer b) oc st) = \<lparr>slot_value = Null, slot_expiry = 0\<rparr> \<and>
      loadOutdated_slot (update pack newVersion (observer b) oc st) = \<lparr>slot_value = Null, slot_expiry = 0\<rparr>) \<and>
   (\<not> succeeded oc \<longrightarrow>
      filter is_slot_write (added st (install e pack (observer b) oc st)) = [] \<and>
      filter is_slot_write (added st (uninstall pack (observer b) oc st)) = [] \<and>
      filter is_slot_write (added st (update pack newVersion (observer b) oc st)) = [] \<and>
      loadOutdated_slot (install e pack (observer b) oc st) = loadOutdated_slot st \<and>
      loadOutdated_slot (uninstall pack (observer b) oc st) = loadOutdated_slot st \<and>
      loadOutdated_slot (update pack newVersion (observer b) oc st) = loadOutdated_slot st)"
  by (simp add: C4_success C4_failure)

text \<open>
  A failed installation emits its terminal event with the cached list still in the slot.
\<close>

theorem C4_counterexample:
  "event_names (added cached_state
      (install example_env [(''name'', Str ''foo'')] (observer False) (Exit 1 [] ''failed'') cached_state)) =
     [''package-installing'', ''package-install-failed''] \<and>
   \<not> invalidated_before_terminal (added cached_state
      (install example_env [(''name'', Str ''foo'')] (observer False) (Exit 1 [] ''failed'') cached_state)) \<and>
   loadOutdated_slot
      (install example_env [(''name'', Str ''foo'')] (observer False) (Exit 1 [] ''failed'') cached_state) =
     \<lparr>slot_value = Arr [Obj [(''name'', Str ''foo'')]], slot_expiry = 600000\<rparr>"
  by (simp add: install_eq done_eqs invalidated_before_terminal_def event_names_def
      kind_def is_theme_def cached_state_def del: install_done.simps)

theorem C4_cache_invalidated_on_success_witness:
  "succeeded (Exit 0 installed_json []) \<and>
   invalidated_before_terminal (added cached_state
      (install example_env [(''name'', Str ''foo'')] (observer True) (Exit 0 installed_json []) cached_state)) \<and>
   loadOutdated_slot
      (install example_env [(''name'', Str ''foo'')] (observer True) (Exit 0 installed_json []) cached_state) =
     \<lparr>slot_value = Null, slot_expiry = 0\<rparr> \<and>
   \<not> succeeded (WillThrowError ''spawn apm ENOENT'') \<and>
   loadOutdated_slot
      (uninstall [(''name'', Str ''foo'')] (observer True) (WillThrowError ''spawn apm ENOENT'') cached_state) =
     \<lparr>slot_value = Arr [Obj [(''name'', Str ''foo'')]], slot_expiry = 600000\<rparr>"
  using
    C4_cache_invalidated_on_success [where oc = "Exit 0 installed_json []" and st = cached_state and e = example_env
      and pack = "[(''name'', Str ''foo'')]" and b = True]
    C4_cache_invalidated_on_success [where oc = "WillThrowError ''spawn apm ENOENT''" and st = cached_state
      and pack = "[(''name'', Str ''foo'')]" and b = True]
  by (simp add: cached_state_def)

section \<open>The composite operation\<close>

lemma settle_callback_frame [simp]:
  "trace (call_optional (Some (settle_callback i)) e st) = trace st"
  "loadOutdated_slot (call_optional (Some (settle_callback i)) e st) = loadOutdated_slot st"
  "promises (call_optional (Some (settle_callback i)) e st) =
     promises (settle i (case e of None \<Rightarrow> Fulfilled Undefined | Some x \<Rightarrow> Rejected x) st)"
  by (cases e; simp)+

lemma promises_settle:
  "promises (settle i v st) =
     (if i < length (promises st) \<and> promises st ! i = Pending
      then (promises st)[i := v] else promises st)"
  by (simp add: settle_def)

lemma installAlternative_begin_frame:
  "ac_pack (fst (installAlternative_begin pack alt st)) = pack"
  "ac_alternative (fst (installAlternative_begin pack alt st)) = alt"
  "ac_uninstallPromise (fst (installAlternative_begin pack alt st)) = length (promises st)"
  "ac_installPromise (fst (installAlternative_begin pack alt st)) = Suc (length (promises st))"
  "ac_all (fst (installAlternative_begin pack alt st)) = Suc (Suc (length (promises st)))"
  "ic_pack (ac_install (fst (installAlternative_begin pack alt st))) = [(''name'', alt)]"
  "promises (snd (installAlternative_begin pack alt st)) = promises st @ [Pending, Pending, Pending]"
  "trace (snd (installAlternative_begin pack alt st)) =
     trace st @
       [Emit ''package-installing-alternative'' (AltEvent (Obj pack) alt None),
        Emit (kind (Obj pack) @ ''uninstalling'') (PackEvent (Obj pack) None),
        RunCommand [Str ''uninstall'', Str ''--hard'', get_prop (Obj pack) ''name'', Str ''--no-color''],
        Emit (kind (Obj [(''name'', alt)]) @ ''installing'') (PackEvent (Obj [(''name'', alt)]) None),
        RunCommand [Str ''install'', nameWithVersion [(''name'', alt)], Str ''--json'',
                    Str ''--no-color'']]"
  by (simp_all add: installAlternative_begin_def new_promise_def Let_def split: prod.splits)
     (simp_all add: install_begin_def Let_def)


lemma alt_frame [simp]:
  "trace (alt_then c record_callback st) =
     trace st @ [Callback None (eventArg c),
                 Emit ''package-installed-alternative''
                   (AltEvent (Obj (ac_pack c)) (ac_alternative c) None)]"
  "promises (alt_then c record_callback st) = promises st"
  "trace (alt_catch c record_callback error st) =
     trace st @ [ConsoleError (err_message error), Callback (Some error) (eventArg c),
                 Emit ''package-install-alternative-failed''
                   (AltEvent (Obj (ac_pack c)) (ac_alternative c) (Some error))]"
  "promises (alt_catch c record_callback error st) = promises st"
  by (simp_all add: alt_then_def alt_catch_def)

lemma installAlternative_eq:
  "installAlternative e pack alt cb sched st =
     (fst (installAlternative_begin pack alt st),
      foldl (\<lambda>s d. installAlternative_deliver e (fst (installAlternative_begin pack alt st)) cb d s)
        (snd (installAlternative_begin pack alt st)) sched)"
  by (simp add: installAlternative_def split: prod.splits)

lemmas alt_simps = installAlternative_eq installAlternative_begin_frame done_eqs promise_all_def
  promises_settle nth_append event_names_def


lemma alt_uninstall_first:
  "event_names (added st (snd (installAlternative e pack alt record_callback
      [(Uninstall, ou), (Install, oi)] st))) =
     [''package-installing-alternative'',
      kind (Obj pack) @ ''uninstalling'',
      kind (Obj [(''name'', alt)]) @ ''installing'',
      kind (Obj pack) @ (if succeeded ou then ''uninstalled'' else ''uninstall-failed'')] @
     (if succeeded ou then [] else [''package-install-alternative-failed'']) @
     [if succeeded oi then kind (Obj (install_merged e [(''name'', alt)] (printed oi))) @ ''installed''
      else kind (Obj [(''name'', alt)]) @ ''install-failed''] @
     (if succeeded ou
      then [if succeeded oi then ''package-installed-alternative''
            else ''package-install-alternative-failed'']
      else [])"
  by (cases "succeeded ou"; cases "succeeded oi") (simp_all add: alt_simps)

lemma alt_install_first:
  "event_names (added st (snd (installAlternative e pack alt record_callback
      [(Install, oi), (Uninstall, ou)] st))) =
     [''package-installing-alternative'',
      kind (Obj pack) @ ''uninstalling'',
      kind (Obj [(''name'', alt)]) @ ''installing'',
      if succeeded oi then kind (Obj (install_merged e [(''name'', alt)] (printed oi))) @ ''installed''
      else kind (Obj [(''name'', alt)]) @ ''install-failed''] @
     (if succeeded oi then [] else [''package-install-alternative-failed'']) @
     [kind (Obj pack) @ (if succeeded ou then ''uninstalled'' else ''uninstall-failed'')] @
     (if succeeded oi
      then [if succeeded ou then ''package-installed-alternative''
            else ''package-install-alternative-failed'']
      else [])"
  by (cases "succeeded ou"; cases "succeeded oi") (simp_all add: alt_simps)

lemma alt_uninstall_only:
  "event_names (added st (snd (installAlternative e pack alt record_callback [(Uninstall, ou)] st))) =
     [''package-installing-alternative'',
      kind (Obj pack) @ ''uninstalling'',
      kind (Obj [(''name'', alt)]) @ ''installing'',
      kind (Obj pack) @ (if succeeded ou then ''uninstalled'' else ''uninstall-failed'')] @
     (if succeeded ou then [] else [''package-install-alternative-failed''])"
  by (cases "succeeded ou") (simp_all add: alt_simps)

lemma alt_install_only:
  "event_names (added st (snd (installAlternative e pack alt record_callback [(Install, oi)] st))) =
     [''package-installing-alternative'',
      kind (Obj pack) @ ''uninstalling'',
      kind (Obj [(''name'', alt)]) @ ''installing'',
      if succeeded oi then kind (Obj (install_merged e [(''name'', alt)] (printed oi))) @ ''installed''
      else kind (Obj [(''name'', alt)]) @ ''install-failed''] @
     (if succeeded oi then [] else [''package-install-alternative-failed''])"
  by (cases "succeeded oi") (simp_all add: alt_simps)

lemma alt_pending:
  "promises (snd (installAlternative e pack alt record_callback [(Uninstall, ou)] st)) !
     ac_installPromise (fst (installAlternative e pack alt record_callback [(Uninstall, ou)] st)) = Pending"
  "promises (snd (installAlternative e pack alt record_callback [(Install, oi)] st)) !
     ac_uninstallPromise (fst (installAlternative e pack alt record_callback [(Install, oi)] st)) = Pending"
  by (cases "succeeded ou"; cases "succeeded oi"; simp add: alt_simps)+

text \<open>
  Claim C2, as the code has it. \<open>Promise.all\<close> rejects with the first rejection. So the
  composite success event \<open>package-installed-alternative\<close> is emitted only after both
  operations have emitted their success events, but \<open>package-install-alternative-failed\<close>
  is emitted right after the terminal event of the first operation that fails, whether
  or not the other one has come back: when the other comes back later, its terminal event
  follows the composite one. One composite terminal event is emitted at most, and exactly
  one once both processes are back. The statement gives the events for both orders in which
  the two processes can come back, and for the moment when only one of them is back (the
  promise of the other is then still pending).
\<close>

theorem C2_composite_terminal_event:
  "event_names (added st (snd (installAlternative e pack alt record_callback
      [(Uninstall, ou), (Install, oi)] st))) =
     [''package-installing-alternative'',
      kind (Obj pack) @ ''uninstalling'',
      kind (Obj [(''name'', alt)]) @ ''installing'',
      kind (Obj pack) @ (if succeeded ou then ''uninstalled'' else ''uninstall-failed'')] @
     (if succeeded ou then [] else [''package-install-alternative-failed'']) @
     [if succeeded oi then kind (Obj (install_merged e [(''name'', alt)] (printed oi))) @ ''installed''
      else kind (Obj [(''name'', alt)]) @ ''install-failed''] @
     (if succeeded ou
      then [if succeeded oi then ''package-installed-alternative''
            else ''package-install-alternative-failed'']
      else []) \<and>
   event_names (added st (snd (installAlternative e pack alt record_callback
      [(Install, oi), (Uninstall, ou)] st))) =
     [''package-installing-alternative'',
      kind (Obj pack) @ ''uninstalling'',
      kind (Obj [(''name'', alt)]) @ ''installing'',
      if succeeded oi then kind (Obj (install_merged e [(''name'', alt)] (printed oi))) @ ''installed''
      else kind (Obj [(''name'', alt)]) @ ''install-failed''] @
     (if succeeded oi then [] else [''package-install-alternative-failed'']) @
     [kind (Obj pack) @ (if succeeded ou then ''uninstalled'' else ''uninstall-failed'')] @
     (if succeeded oi
      then [if succeeded ou then ''package-installed-alternative''
            else ''package-install-alternative-failed'']
      else []) \<and>
   event_names (added st (snd (installAlternative e pack alt record_callback [(Uninstall, ou)] st))) =
     [''package-installing-alternative'',
      kind (Obj pack) @ ''uninstalling'',
      kind (Obj [(''name'', alt)]) @ ''installing'',
      kind (Obj pack) @ (if succeeded ou then ''uninstalled'' else ''uninstall-failed'')] @
     (if succeeded ou then [] else [''package-install-alternative-failed'']) \<and>
   promises (snd (installAlternative e pack alt record_callback [(Uninstall, ou)] st)) !
     ac_installPromise (fst (installAlternative e pack alt record_callback [(Uninstall, ou)] st)) =
     Pending \<and>
   event_names (added st (snd (installAlternative e pack alt record_callback [(Install, oi)] st))) =
     [''package-installing-alternative'',
      kind (Obj pack) @ ''uninstalling'',
      kind (Obj [(''name'', alt)]) @ ''installing'',
      if succeeded oi then kind (Obj (install_merged e [(''name'', alt)] (printed oi))) @ ''installed''
      else kind (Obj [(''name'', alt)]) @ ''install-failed''] @
     (if succeeded oi then [] else [''package-install-alternative-failed'']) \<and>
   promises (snd (installAlternative e pack alt record_callback [(Install, oi)] st)) !
     ac_uninstallPromise (fst (installAlternative e pack alt record_callback [(Install, oi)] st)) =
     Pending"
  by (simp only: alt_uninstall_first alt_install_first alt_uninstall_only alt_install_only
      alt_pending simp_thms)

text \<open>
  The uninstallation fails while the installation is still running: the composite failure
  event is there, the promise of the installation is pending.
\<close>

theorem C2_counterexample:
  "event_names (trace (snd (installAlternative example_env [(''name'', Str ''foo'')] (Str ''bar'')
      record_callback [(Uninstall, Exit 1 [] ''failed'')] new_PackageManager))) =
     [''package-installing-alternative'', ''package-uninstalling'', ''package-installing'',
      ''package-uninstall-failed'', ''package-install-alternative-failed''] \<and>
   promises (snd (installAlternative example_env [(''name'', Str ''foo'')] (Str ''bar'')
      record_callback [(Uninstall, Exit 1 [] ''failed'')] new_PackageManager)) !
     ac_installPromise (fst (installAlternative example_env [(''name'', Str ''foo'')] (Str ''bar'')
      record_callback [(Uninstall, Exit 1 [] ''failed'')] new_PackageManager)) = Pending"
  by (simp add: alt_simps kind_def is_theme_def new_PackageManager_def
      del: uninstall_done.simps install_done.simps)

theorem C2_composite_terminal_event_witness:
  "event_names (added new_PackageManager (snd (installAlternative example_env
      [(''name'', Str ''foo'')] (Str ''bar'') record_callback
      [(Install, Exit 0 installed_json []), (Uninstall, Exit 0 [] [])] new_PackageManager))) =
     [''package-installing-alternative'', ''package-uninstalling'', ''package-installing'',
      ''package-installed'', ''package-uninstalled'', ''package-installed-alternative''] \<and>
   event_names (added new_PackageManager (snd (installAlternative example_env
      [(''name'', Str ''foo'')] (Str ''bar'') record_callback
      [(Uninstall, WillThrowError ''spawn apm ENOENT''), (Install, Exit 0 installed_json [])]
      new_PackageManager))) =
     [''package-installing-alternative'', ''package-uninstalling'', ''package-installing'',
      ''package-uninstall-failed'', ''package-install-alternative-failed'',
      ''package-installed'']"
  using
    C2_composite_terminal_event [where st = new_PackageManager and e = example_env and pack = "[(''name'', Str ''foo'')]"
      and alt = "Str ''bar''" and oi = "Exit 0 installed_json []" and ou = "Exit 0 [] []"]
    C2_composite_terminal_event [where st = new_PackageManager and e = example_env and pack = "[(''name'', Str ''foo'')]"
      and alt = "Str ''bar''" and oi = "Exit 0 installed_json []"
      and ou = "WillThrowError ''spawn apm ENOENT''"]
  by (simp add: kind_def is_theme_def install_merged_def example_env_def foo_installed_def)

section \<open>Memoized package requests\<close>

lemma array_get_None:
  "array_get own k = None \<longleftrightarrow>
     k \<noteq> ''length'' \<and> map_of own k = None \<and>
     k \<notin> set array_prototype_names \<and> k \<notin> set object_prototype_names"
  by (auto simp: array_get_def split: option.splits)

lemma getPackage_found:
  "array_get (packagePromises st) n = Some v \<Longrightarrow> getPackage n st = (v, st)"
  by (simp add: getPackage_def)

lemma getPackage_stored:
  "map_of (packagePromises st) n = Some p \<Longrightarrow> n \<noteq> ''length'' \<Longrightarrow>
   getPackage n st = (PromiseRef p, st)"
  by (simp add: getPackage_def array_get_def)

lemma getPackage_first:
  "array_get (packagePromises st) n = None \<Longrightarrow>
   getPackage n st =
     (PromiseRef (length (promises st)),
      st\<lparr>promises := promises st @ [Pending],
         trace := trace st @ [RunCommand [Str ''view'', Str n, Str ''--json'', Str ''--no-color'']],
         packagePromises := (n, length (promises st)) # packagePromises st\<rparr>)"
  by (simp add: getPackage_def new_promise_def loadPackage_def runCommand_def)

lemma array_get_kept:
  assumes "array_get (packagePromises st) n = Some v" and "n \<noteq> ''length''"
  shows "array_get (packagePromises (snd (getPackage m st))) n = Some v"
proof (cases "array_get (packagePromises st) m")
  case (Some w)
  with assms show ?thesis by (simp add: getPackage_found)
next
  case None
  with assms have "m \<noteq> n" by auto
  with assms None show ?thesis
    by (simp add: getPackage_first array_get_def)
qed

lemma array_get_defined_kept:
  assumes "array_get (packagePromises st) n \<noteq> None"
  shows "array_get (packagePromises (snd (getPackage m st))) n \<noteq> None"
proof (cases "n = ''length''")
  case True
  then show ?thesis by (simp add: array_get_def)
next
  case False
  from assms obtain v where "array_get (packagePromises st) n = Some v" by auto
  with False show ?thesis by (simp add: array_get_kept)
qed

lemma getPackage_calls_Cons [simp]:
  "getPackage_calls (m # ms) st = getPackage_calls ms (snd (getPackage m st))"
  "getPackage_calls [] st = st"
  by (simp_all add: getPackage_calls_def)

text \<open>
  Once something is found under a name that is not \<open>length\<close>, every later call finds the
  same, whatever other names are asked for in between.
\<close>

lemma getPackage_calls_kept:
  "array_get (packagePromises st) n = Some v \<Longrightarrow> n \<noteq> ''length'' \<Longrightarrow>
   array_get (packagePromises (getPackage_calls ms st)) n = Some v"
  by (induction ms arbitrary: st) (simp_all add: array_get_kept)

lemma getPackage_memoized:
  assumes "array_get (packagePromises st) n = None"
  shows "fst (getPackage n st) = PromiseRef (length (promises st)) \<and>
         getPackage n (getPackage_calls ms (snd (getPackage n st))) =
           (PromiseRef (length (promises st)), getPackage_calls ms (snd (getPackage n st)))"
proof -
  from assms have n: "n \<noteq> ''length''" by (simp add: array_get_None)
  have "array_get (packagePromises (snd (getPackage n st))) n = Some (PromiseRef (length (promises st)))"
    using assms n by (simp add: getPackage_first array_get_def)
  then have "array_get (packagePromises (getPackage_calls ms (snd (getPackage n st)))) n =
      Some (PromiseRef (length (promises st)))"
    using n by (rule getPackage_calls_kept)
  then show ?thesis
    using assms by (simp add: getPackage_found getPackage_first)
qed

text \<open>The processes started for a name: none once something is found under it.\<close>

lemma view_commands_append [simp]:
  "view_commands n (xs @ ys) = view_commands n xs + view_commands n ys"
  by (simp add: view_commands_def)

lemma view_commands_getPackage:
  "view_commands n (trace (snd (getPackage m st))) =
     view_commands n (trace st) +
       (if m = n \<and> array_get (packagePromises st) n = None then 1 else 0)"
proof (cases "array_get (packagePromises st) m")
  case None
  then show ?thesis by (auto simp: getPackage_first view_commands_def)
next
  case (Some v)
  then show ?thesis by (auto simp: getPackage_found)
qed

lemma view_commands_found:
  "array_get (packagePromises st) n \<noteq> None \<Longrightarrow>
   view_commands n (trace (getPackage_calls ms st)) = view_commands n (trace st)"
proof (induction ms arbitrary: st)
  case Nil
  then show ?case by simp
next
  case (Cons m ms)
  from Cons.prems have "array_get (packagePromises (snd (getPackage m st))) n \<noteq> None"
    by (rule array_get_defined_kept)
  then have "view_commands n (trace (getPackage_calls ms (snd (getPackage m st)))) =
      view_commands n (trace (snd (getPackage m st)))"
    by (rule Cons.IH)
  with Cons.prems show ?case by (simp add: view_commands_getPackage)
qed

lemma view_commands_at_most_one:
  "view_commands n (trace (getPackage_calls ms st)) \<le> view_commands n (trace st) + 1"
proof (induction ms arbitrary: st)
  case Nil
  then show ?case by simp
next
  case (Cons m ms)
  show ?case
  proof (cases "m = n \<and> array_get (packagePromises st) n = None")
    case True
    then have "array_get (packagePromises (snd (getPackage m st))) n \<noteq> None"
      by (simp add: getPackage_first array_get_def)
    then have "view_commands n (trace (getPackage_calls ms (snd (getPackage m st)))) =
        view_commands n (trace (snd (getPackage m st)))"
      by (rule view_commands_found)
    with True show ?thesis by (simp add: view_commands_getPackage)
  next
    case False
    then have same: "view_commands n (trace (snd (getPackage m st))) = view_commands n (trace st)"
      by (simp add: view_commands_getPackage)
    have "view_commands n (trace (getPackage_calls ms (snd (getPackage m st)))) \<le>
        view_commands n (trace (snd (getPackage m st))) + 1"
      by (rule Cons.IH)
    with same show ?thesis by simp
  qed
qed

text \<open>
  Claim C5 at the name \<open>length\<close>. The claim has the first call of \<open>getPackage\<close> for a name
  store a promise and return it. On the fresh package manager, \<open>packagePromises['length']\<close>
  is the length of the empty array, 0, which is not \<open>null\<close>: the call returns the number,
  stores nothing and starts no process. (For a name under which the array has nothing,
  \<open>getPackage_memoized\<close> and \<open>view_commands_at_most_one\<close> above give what the claim says.)
\<close>

theorem C5_getPackage_length:
  "getPackage ''length'' new_PackageManager = (NumberValue 0, new_PackageManager)"
  by (simp add: getPackage_def array_get_def array_length_def new_PackageManager_def)

theorem C5_getPackage_length_witness:
  "fst (getPackage ''length'' new_PackageManager) \<noteq> PromiseRef 0 \<and>
   packagePromises (snd (getPackage ''length'' new_PackageManager)) = [] \<and>
   trace (snd (getPackage ''length'' new_PackageManager)) = [] \<and>
   fst (getPackage ''foo'' new_PackageManager) = PromiseRef 0 \<and>
   packagePromises (snd (getPackage ''foo'' new_PackageManager)) = [(''foo'', 0)] \<and>
   trace (snd (getPackage ''foo'' new_PackageManager)) =
     [RunCommand [Str ''view'', Str ''foo'', Str ''--json'', Str ''--no-color'']]"
proof -
  have "array_get (packagePromises new_PackageManager) ''foo'' = None"
    by (simp add: array_get_def new_PackageManager_def array_prototype_names_def
        object_prototype_names_def)
  then show ?thesis
    using C5_getPackage_length
    by (simp add: getPackage_first) (simp add: new_PackageManager_def)
qed

section \<open>The registry cache\<close>

text \<open>
  Claim C6. \<open>fetchFromCache\<close> always calls its callback with \<open>null\<close> as the error. The data
  is the cached payload when an entry is cached and the system is offline, or the caller
  forces it, or the entry is younger than \<open>expiry\<close> (12 hours); \<open>null\<close> when the system is
  online and either nothing is cached or the entry is expired and not forced; the empty
  object when the system is offline and nothing is cached.
\<close>

theorem C6_fetchFromCache:
  "fst (fetchFromCache online now localStorage packagePath options) = Null \<and>
   (localStorage (cacheKeyForPath packagePath) = Some cached \<and>
      (\<not> online \<or> truthy (get_prop (Obj options) ''force'') \<or> now - createdOn cached < expiry) \<longrightarrow>
      snd (fetchFromCache online now localStorage packagePath options) = entry_data cached) \<and>
   (online \<and>
      (localStorage (cacheKeyForPath packagePath) = None \<or>
       (localStorage (cacheKeyForPath packagePath) = Some cached \<and>
        \<not> now - createdOn cached < expiry \<and> \<not> truthy (get_prop (Obj options) ''force''))) \<longrightarrow>
      snd (fetchFromCache online now localStorage packagePath options) = Null) \<and>
   (\<not> online \<and> localStorage (cacheKeyForPath packagePath) = None \<longrightarrow>
      snd (fetchFromCache online now localStorage packagePath options) = Obj [])"
  by (auto simp: fetchFromCache_def Let_def split: option.splits)

theorem C6_fetchFromCache_witness:
  "fetchFromCache False 100000000
     (\<lambda>k. if k = ''settings-view:packages/foo''
          then Some \<lparr>entry_data = Obj [(''name'', Str ''foo'')], createdOn = 0\<rparr> else None)
     ''packages/foo'' [] = (Null, Obj [(''name'', Str ''foo'')]) \<and>
   fetchFromCache True 100000000
     (\<lambda>k. if k = ''settings-view:packages/foo''
          then Some \<lparr>entry_data = Obj [(''name'', Str ''foo'')], createdOn = 0\<rparr> else None)
     ''packages/foo'' [] = (Null, Null) \<and>
   fetchFromCache True 100000000
     (\<lambda>k. if k = ''settings-view:packages/foo''
          then Some \<lparr>entry_data = Obj [(''name'', Str ''foo'')], createdOn = 0\<rparr> else None)
     ''packages/foo'' [(''force'', Bool True)] = (Null, Obj [(''name'', Str ''foo'')]) \<and>
   fetchFromCache False 100000000 (\<lambda>k. None) ''packages/foo'' [] = (Null, Obj [])"
proof -
  let ?ls = "\<lambda>k. if k = ''settings-view:packages/foo''
          then Some \<lparr>entry_data = Obj [(''name'', Str ''foo'')], createdOn = 0\<rparr> else None"
  let ?e = "\<lparr>entry_data = Obj [(''name'', Str ''foo'')], createdOn = 0\<rparr>"
  have k: "?ls (cacheKeyForPath ''packages/foo'') = Some ?e"
    by (simp add: cacheKeyForPath_def)
  have old: "\<not> (100000000::int) - createdOn ?e < expiry"
    by (simp add: expiry_def)
  show ?thesis
    using k old
      C6_fetchFromCache [where online = False and now = 100000000 and localStorage = ?ls
        and packagePath = "''packages/foo''" and options = "[]" and cached = ?e]
      C6_fetchFromCache [where online = True and now = 100000000 and localStorage = ?ls
        and packagePath = "''packages/foo''" and options = "[]" and cached = ?e]
      C6_fetchFromCache [where online = True and now = 100000000 and localStorage = ?ls
        and packagePath = "''packages/foo''" and options = "[(''force'', Bool True)]" and cached = ?e]
      C6_fetchFromCache [where online = False and now = 100000000 and localStorage = "\<lambda>k. None"
        and packagePath = "''packages/foo''" and options = "[]"]
    by (simp add: prod_eq_iff)
qed

section \<open>search\<close>

lemma search_filter_empty: "search_filter pkgs = Inr kept \<Longrightarrow> kept = []"
  by (induction pkgs) (auto split: sum.splits if_splits)

lemma search_response_empty: "search_response body = Inr r \<Longrightarrow> r = []"
  by (auto simp: search_response_def sort_by_downloads_def split: jsval.splits sum.splits
      dest!: search_filter_empty)

lemma search_filter_released:
  "pkg \<in> set pkgs \<Longrightarrow> truthy (get_prop pkg ''releases'') \<Longrightarrow> \<exists>x. search_filter pkgs = Inl x"
proof (induction pkgs)
  case Nil
  then show ?case by simp
next
  case (Cons p ps)
  then show ?case
    by (cases p) (auto split: sum.splits)
qed

text \<open>
  Claim C9 at a response with one released package. The claim has \<open>search\<close> resolve with
  the summary of every entry that has a release. For the entry below \<open>pkg.releases\<close> is
  truthy, so the filter goes on to evaluate \<open>releases.latest\<close>, where \<open>releases\<close> is not
  declared: a \<open>ReferenceError\<close> is thrown in the callback and the promise is never
  settled. By \<open>search_response_empty\<close> the only list \<open>search\<close> can resolve with is the
  empty one.
\<close>

theorem C9_search_released:
  "search_response
     (Arr [Obj [(''name'', Str ''foo''),
                (''releases'', Obj [(''latest'', Str ''1.0.0'')]),
                (''metadata'', Obj [(''name'', Str ''foo'')]),
                (''downloads'', Num 5),
                (''stargazers_count'', Num 1)]]) = Inl ReferenceError"
  by (simp add: search_response_def)

section \<open>Cached avatars\<close>

lemma first_fresh_None:
  "first_fresh now files = None \<longleftrightarrow>
     (\<forall>p \<in> set files. case parseInt (last (split_dash (basename p))) of
                          Some stamp \<Rightarrow> \<not> now - stamp < expiry | None \<Rightarrow> True)"
  by (induction files) (auto split: option.splits)

lemma first_fresh_Some:
  "first_fresh now files = Some p \<Longrightarrow>
     p \<in> set files \<and>
     (\<exists>stamp. parseInt (last (split_dash (basename p))) = Some stamp \<and> now - stamp < expiry)"
  by (induction files) (auto split: option.splits if_splits)

text \<open>Offline, with no matched file fresh when the directory is read, the answer is \<open>null\<close>.\<close>

lemma avatar_offline_stale:
  assumes "\<forall>f \<in> set dir. avatarGlob login f \<longrightarrow>
             (case parseInt (last (split_dash (basename (path_join cachePath f)))) of
                Some stamp \<Rightarrow> \<not> t_scan - stamp < expiry | None \<Rightarrow> True)"
  shows "avatar False t_scan t_cb cachePath dir login = Delivered None"
proof -
  have "cachedAvatar t_scan cachePath dir login = None"
    unfolding cachedAvatar_def first_fresh_None using assms by auto
  then show ?thesis by (simp add: avatar_def fetchAndCacheAvatar_def)
qed

text \<open>
  The two other cases: a fresh file found by \<open>cachedAvatar\<close> and still not stale when the
  callback runs is handed over, online or not; online, with no fresh file, the image is
  requested.
\<close>

lemma avatar_fresh:
  assumes "cachedAvatar t_scan cachePath dir login = Some cached" and "cached \<noteq> []"
    and "parseInt (last (split_dash cached)) = Some stamp" and "\<not> t_cb - stamp > expiry"
  shows "avatar online t_scan t_cb cachePath dir login = Delivered (Some cached)"
  using assms by (simp add: avatar_def)

lemma avatar_online_fetch:
  assumes "cachedAvatar t_scan cachePath dir login = None"
  shows "avatar True t_scan t_cb cachePath dir login = Requested login"
  using assms by (simp add: avatar_def fetchAndCacheAvatar_def)

lemma digits_value_1500000000000 [simp]: "digits_value ''1500000000000'' = 1500000000000"
  by (simp add: digits_value_def)

text \<open>
  Claim C7 at a stale file, offline. The claim has \<open>avatar\<close> return the cached file when
  the system is offline even if the file is past the 12 hours. The only file of the login
  below is 12 hours and one millisecond old: \<open>cachedAvatar\<close> passes on fresh files only and
  answers \<open>null\<close>, so \<open>avatar\<close> never sees the stale file, goes to \<open>fetchAndCacheAvatar\<close>,
  and that, offline, calls back with \<open>null\<close>. (\<open>avatar_offline_stale\<close> above: so it is
  for every directory without a fresh file of the login.)
\<close>

theorem C7_avatar_offline_stale:
  "avatar False 1500043200001 1500043200001 ''/home/octo/.atom/Cache/settings-view''
     [''octocat-1500000000000''] ''octocat'' = Delivered None"
  by (simp add: avatar_def cachedAvatar_def avatarGlob_def path_join_def basename_def parseInt_def
      is_digit_def expiry_def fetchAndCacheAvatar_def)

theorem C7_avatar_offline_stale_witness:
  "avatar False 1500043200001 1500043200001 ''/home/octo/.atom/Cache/settings-view''
     [''octocat-1500000000000''] ''octocat'' \<noteq>
   Delivered (Some ''/home/octo/.atom/Cache/settings-view/octocat-1500000000000'')"
  using C7_avatar_offline_stale by simp

section \<open>The cleanup sweep\<close>

lemma split_dash_nonempty [simp]: "split_dash s \<noteq> []"
  by (induction s) (auto split: list.splits)

lemma join_split_dash: "join ''-'' (split_dash s) = s"
proof (induction s)
  case Nil
  then show ?case by simp
next
  case (Cons c cs)
  show ?case
  proof (cases "c = CHR ''-''")
    case True
    obtain p ps where "split_dash cs = p # ps"
      by (cases "split_dash cs") simp_all
    with True Cons show ?thesis by simp
  next
    case False
    obtain p ps where s: "split_dash cs = p # ps"
      by (cases "split_dash cs") simp_all
    with Cons have "join ''-'' (p # ps) = cs" by simp
    then have "join ''-'' ((c # p) # ps) = c # cs"
      by (cases ps) simp_all
    with False s show ?thesis by simp
  qed
qed

lemma split_dash_single: "CHR ''-'' \<notin> set s \<Longrightarrow> split_dash s = [s]"
  by (induction s) auto

lemma split_dash_many: "CHR ''-'' \<in> set s \<Longrightarrow> 2 \<le> length (split_dash s)"
proof (induction s)
  case Nil
  then show ?case by simp
next
  case (Cons c cs)
  obtain p ps where s: "split_dash cs = p # ps"
    by (cases "split_dash cs") simp_all
  show ?case
  proof (cases "c = CHR ''-''")
    case True
    with s show ?thesis by simp
  next
    case False
    with Cons.prems have "CHR ''-'' \<in> set cs" by simp
    then have "2 \<le> length (split_dash cs)" by (rule Cons.IH)
    with s False show ?thesis by simp
  qed
qed

lemma join_butlast_last:
  "2 \<le> length ps \<Longrightarrow> join sep (butlast ps) @ sep @ last ps = join sep ps"
proof (induction ps rule: join.induct[where ?a0.0 = sep])
  case (3 sep x y ys)
  show ?case
  proof (cases ys)
    case Nil
    then show ?thesis by simp
  next
    case (Cons z zs)
    with 3 show ?thesis by simp
  qed
qed simp_all

lemma child_of_dashed: "CHR ''-'' \<in> set f \<Longrightarrow> child_of f = f"
  unfolding child_of_def key_of_def
  using join_butlast_last [OF split_dash_many, of f "''-''"] join_split_dash [of f]
  by simp

lemma child_of_plain: "CHR ''-'' \<notin> set f \<Longrightarrow> child_of f = CHR ''-'' # f"
  by (simp add: child_of_def key_of_def split_dash_single)


text \<open>The dictionary after one more name, and after all of them.\<close>

lemma map_of_map_upd:
  "map_of (map (\<lambda>(k, v). if k = a then (k, g v) else (k, v)) kvs) x =
     (if x = a then map_option g (map_of kvs x) else map_of kvs x)"
  by (induction kvs) auto

lemma fst_map_upd:
  "map (fst \<circ> (\<lambda>(k, v). if k = a then (k, g v) else (k, v))) kvs = map fst kvs"
  by (induction kvs) auto

lemma add_file_Inr:
  assumes "key_of f \<notin> set object_prototype_names"
  shows "\<exists>files'. add_file f files = Inr files' \<and>
           (\<forall>k. map_of files' k =
              (if k = key_of f
               then Some ((case map_of files k of None \<Rightarrow> [] | Some v \<Rightarrow> v) @ [child_of f])
               else map_of files k)) \<and>
           (distinct (map fst files) \<longrightarrow> distinct (map fst files'))"
proof (cases "map_of files (key_of f)")
  case None
  then have "key_of f \<notin> fst ` set files" by (simp add: map_of_eq_None_iff)
  with None assms show ?thesis
    by (auto simp: add_file_def map_add_def split: option.splits)
next
  case (Some v)
  then show ?thesis
    by (auto simp: add_file_def map_of_map_upd fst_map_upd)
qed

lemma group_files_Inr:
  assumes "\<forall>f \<in> set names. key_of f \<notin> set object_prototype_names"
    and "distinct (map fst files)"
  shows "\<exists>files'. group_files names files = Inr files' \<and> distinct (map fst files') \<and>
           (\<forall>k. map_of files' k =
              (case map_of files k of
                 None \<Rightarrow> if children_of k names = [] then None else Some (children_of k names)
               | Some v \<Rightarrow> Some (v @ children_of k names)))"
  using assms
proof (induction names arbitrary: files)
  case Nil
  then show ?case by (auto simp: children_of_def split: option.splits)
next
  case (Cons f names)
  from Cons.prems have "key_of f \<notin> set object_prototype_names" by simp
  from add_file_Inr [OF this, of files] Cons.prems(2)
  obtain files1 where
    a: "add_file f files = Inr files1" and
    m: "\<And>k. map_of files1 k =
              (if k = key_of f
               then Some ((case map_of files k of None \<Rightarrow> [] | Some v \<Rightarrow> v) @ [child_of f])
               else map_of files k)" and
    d: "distinct (map fst files1)"
    by blast
  from Cons.prems have "\<forall>f \<in> set names. key_of f \<notin> set object_prototype_names" by simp
  from Cons.IH [OF this d]
  obtain files' where
    g: "group_files names files1 = Inr files'" and
    d': "distinct (map fst files')" and
    m': "\<And>k. map_of files' k =
              (case map_of files1 k of
                 None \<Rightarrow> if children_of k names = [] then None else Some (children_of k names)
               | Some v \<Rightarrow> Some (v @ children_of k names))"
    by blast
  have "map_of files' k =
              (case map_of files k of
                 None \<Rightarrow> if children_of k (f # names) = [] then None
                         else Some (children_of k (f # names))
               | Some v \<Rightarrow> Some (v @ children_of k (f # names)))" for k
    by (simp add: m' m children_of_def split: option.splits)
  with a g d' show ?case by simp
qed


lemma fold_unlink: "fold unlink names dir = filter (\<lambda>f. f \<notin> set names) dir"
proof (induction names arbitrary: dir)
  case Nil
  then show ?case by simp
next
  case (Cons n names)
  have "fold unlink (n # names) dir = fold unlink names (removeAll n dir)"
    by (simp add: unlink_def)
  also have "\<dots> = filter (\<lambda>f. f \<notin> set names) (removeAll n dir)"
    by (rule Cons.IH)
  also have "\<dots> = filter (\<lambda>f. f \<notin> set (n # names)) dir"
    by (induction dir) auto
  finally show ?case .
qed

lemma sorted_le_last:
  fixes ys :: "'a::linorder list"
  shows "sorted ys \<Longrightarrow> y \<in> set ys \<Longrightarrow> y \<le> last ys"
proof (induction ys)
  case Nil
  then show ?case by simp
next
  case (Cons a ys)
  show ?case
  proof (cases "ys = []")
    case True
    with Cons.prems show ?thesis by simp
  next
    case False
    then have l: "last ys \<in> set ys" by simp
    from Cons.prems show ?thesis
    proof (cases "y = a")
      case True
      with Cons.prems l False show ?thesis by auto
    next
      case no: False
      with Cons.prems have "y \<in> set ys" and "sorted ys" by auto
      with Cons.IH False show ?thesis by simp
    qed
  qed
qed

lemma set_butlast_sort:
  fixes xs :: "string list"
  assumes "distinct xs" and "xs \<noteq> []"
  shows "set (butlast (sort xs)) = set xs - {Max (set xs)}"
proof -
  let ?ys = "sort xs"
  from assms have ne: "?ys \<noteq> []" by (metis set_sort set_empty)
  have d: "distinct ?ys" using assms by simp
  have "\<forall>y \<in> set ?ys. y \<le> last ?ys"
    using sorted_le_last [of ?ys] by simp
  moreover have "last ?ys \<in> set ?ys" using ne by (rule last_in_set)
  ultimately have m: "Max (set xs) = last ?ys"
    by (intro Max_eqI) auto
  from ne have split: "butlast ?ys @ [last ?ys] = ?ys" by simp
  have u: "set ?ys = set (butlast ?ys) \<union> {last ?ys}"
    using split by (metis set_append list.set(1) list.set(2))
  have "distinct (butlast ?ys @ [last ?ys])" using d split by simp
  then have "last ?ys \<notin> set (butlast ?ys)" by simp
  with m u show ?thesis by auto
qed


lemma set_concat_pairs:
  "distinct (map fst files) \<Longrightarrow>
   set (concat (map (\<lambda>(k, children). D children) files)) =
     {x. \<exists>k ch. map_of files k = Some ch \<and> x \<in> set (D ch)}"
proof (induction files)
  case Nil
  then show ?case by simp
next
  case (Cons p files)
  obtain k ch where p: "p = (k, ch)" by (cases p)
  from Cons.prems p have fresh: "map_of files k = None" and d: "distinct (map fst files)"
    by (simp_all add: map_of_eq_None_iff)
  have "set (concat (map (\<lambda>(k, children). D children) (p # files))) =
        set (D ch) \<union> {x. \<exists>k ch. map_of files k = Some ch \<and> x \<in> set (D ch)}"
    using Cons.IH [OF d] p by simp
  also have "\<dots> = {x. \<exists>k' ch'. map_of (p # files) k' = Some ch' \<and> x \<in> set (D ch')}"
  proof -
    have e: "map_of (p # files) k' = Some ch' \<longleftrightarrow>
               (k' = k \<and> ch' = ch) \<or> map_of files k' = Some ch'" for k' ch'
      using fresh p by auto
    show ?thesis unfolding e by blast
  qed
  finally show ?case .
qed

lemma expireAvatarCache_deleted:
  assumes "\<forall>f \<in> set dir. key_of f \<notin> set object_prototype_names"
  shows "\<exists>names. expireAvatarCache (Some dir) = Inr names \<and>
           set names = {x. \<exists>k. children_of k dir \<noteq> [] \<and> x \<in> set (butlast (sort (children_of k dir)))}"
proof -
  have "distinct (map fst ([] :: (string \<times> string list) list))" by simp
  from group_files_Inr [OF assms this]
  obtain files where
    g: "group_files dir [] = Inr files" and
    d: "distinct (map fst files)" and
    m: "\<forall>k. map_of files k =
              (case map_of [] k of
                 None \<Rightarrow> if children_of k dir = [] then None else Some (children_of k dir)
               | Some v \<Rightarrow> Some (v @ children_of k dir))"
    by blast
  have m': "map_of files k = Some ch \<longleftrightarrow> children_of k dir \<noteq> [] \<and> ch = children_of k dir" for k ch
  proof (cases "children_of k dir = []")
    case True
    with m show ?thesis by simp
  next
    case False
    with m have "map_of files k = Some (children_of k dir)" by simp
    with False show ?thesis by auto
  qed
  have "set (concat (map (\<lambda>(k, children). butlast (sort children)) files)) =
          {x. \<exists>k ch. map_of files k = Some ch \<and> x \<in> set (butlast (sort ch))}"
    using d by (rule set_concat_pairs)
  also have "\<dots> = {x. \<exists>k. children_of k dir \<noteq> [] \<and> x \<in> set (butlast (sort (children_of k dir)))}"
    unfolding m' by blast
  finally have "set (concat (map (\<lambda>(k, children). butlast (sort children)) files)) =
      {x. \<exists>k. children_of k dir \<noteq> [] \<and> x \<in> set (butlast (sort (children_of k dir)))}" .
  with g show ?thesis by (simp add: expireAvatarCache_def)
qed

lemma children_of_dashed:
  "\<forall>f \<in> set dir. CHR ''-'' \<in> set f \<Longrightarrow> children_of k dir = filter (\<lambda>f. key_of f = k) dir"
  unfolding children_of_def by (induction dir) (auto simp: child_of_dashed)

lemma sweep_survivors:
  assumes "distinct dir"
    and "\<forall>f \<in> set dir. CHR ''-'' \<in> set f"
    and "\<forall>f \<in> set dir. key_of f \<notin> set object_prototype_names"
  shows "sweep dir = Inr (filter (\<lambda>f. \<forall>g \<in> set dir. key_of g = key_of f \<longrightarrow> g \<le> f) dir)"
proof -
  from expireAvatarCache_deleted [OF assms(3)]
  obtain names where
    e: "expireAvatarCache (Some dir) = Inr names" and
    n: "set names = {x. \<exists>k. children_of k dir \<noteq> [] \<and> x \<in> set (butlast (sort (children_of k dir)))}"
    by blast
  have ch: "children_of k dir = filter (\<lambda>f. key_of f = k) dir" for k
    using assms(2) by (rule children_of_dashed)
  have dch: "distinct (children_of k dir)" for k
    using assms(1) by (simp add: ch)
  have del: "x \<in> set names \<longleftrightarrow>
      x \<in> set dir \<and> x \<noteq> Max {g \<in> set dir. key_of g = key_of x}" for x
  proof
    assume "x \<in> set names"
    with n obtain k where k: "children_of k dir \<noteq> []"
      and x: "x \<in> set (butlast (sort (children_of k dir)))" by blast
    from x have "x \<in> set (children_of k dir) - {Max (set (children_of k dir))}"
      using set_butlast_sort [OF dch k] by simp
    then have "x \<in> set dir" "key_of x = k" "x \<noteq> Max (set (children_of k dir))"
      by (auto simp: ch)
    moreover have "set (children_of k dir) = {g \<in> set dir. key_of g = k}"
      by (auto simp: ch)
    ultimately show "x \<in> set dir \<and> x \<noteq> Max {g \<in> set dir. key_of g = key_of x}"
      by simp
  next
    assume a: "x \<in> set dir \<and> x \<noteq> Max {g \<in> set dir. key_of g = key_of x}"
    let ?k = "key_of x"
    have s: "set (children_of ?k dir) = {g \<in> set dir. key_of g = ?k}"
      by (auto simp: ch)
    from a have xin: "x \<in> set (children_of ?k dir)" by (simp add: ch)
    then have k: "children_of ?k dir \<noteq> []" by auto
    from a xin s have "x \<in> set (children_of ?k dir) - {Max (set (children_of ?k dir))}"
      by simp
    then have "x \<in> set (butlast (sort (children_of ?k dir)))"
      using set_butlast_sort [OF dch k] by simp
    with k n show "x \<in> set names" by blast
  qed
  have keep: "f \<notin> set names \<longleftrightarrow> (\<forall>g \<in> set dir. key_of g = key_of f \<longrightarrow> g \<le> f)"
    if f: "f \<in> set dir" for f
  proof -
    let ?S = "{g \<in> set dir. key_of g = key_of f}"
    have fin: "finite ?S" and mem: "f \<in> ?S" using f by auto
    have "f = Max ?S \<longleftrightarrow> (\<forall>g \<in> ?S. g \<le> f)"
    proof
      assume m: "f = Max ?S"
      show "\<forall>g \<in> ?S. g \<le> f"
      proof
        fix g assume "g \<in> ?S"
        with fin have "g \<le> Max ?S" by (rule Max_ge)
        with m show "g \<le> f" by simp
      qed
    next
      assume a: "\<forall>g \<in> ?S. g \<le> f"
      have "Max ?S = f"
      proof (rule Max_eqI)
        show "finite ?S" by (rule fin)
        show "y \<le> f" if "y \<in> ?S" for y using a that by blast
        show "f \<in> ?S" by (rule mem)
      qed
      then show "f = Max ?S" by simp
    qed
    with f show ?thesis by (auto simp: del)
  qed
  have "filter (\<lambda>f. f \<notin> set names) dir =
        filter (\<lambda>f. \<forall>g \<in> set dir. key_of g = key_of f \<longrightarrow> g \<le> f) dir"
    by (rule filter_cong) (simp_all add: keep)
  with e show ?thesis by (simp add: sweep_def fold_unlink)
qed

lemma one_per_login:
  assumes "f \<in> set dir"
  shows "\<exists>!g. g \<in> set (filter (\<lambda>f. \<forall>g \<in> set dir. key_of g = key_of f \<longrightarrow> g \<le> f) dir) \<and>
              key_of g = key_of f"
proof -
  let ?S = "{g \<in> set dir. key_of g = key_of f}"
  have fin: "finite ?S" and ne: "?S \<noteq> {}" using assms by auto
  let ?m = "Max ?S"
  from fin ne have min: "?m \<in> ?S" by (rule Max_in)
  have ub: "\<forall>g \<in> ?S. g \<le> ?m" using fin by simp
  show ?thesis
  proof (rule ex1I [of _ ?m])
    from min ub show "?m \<in> set (filter (\<lambda>f. \<forall>g \<in> set dir. key_of g = key_of f \<longrightarrow> g \<le> f) dir) \<and>
        key_of ?m = key_of f"
      by auto
  next
    fix g
    assume g: "g \<in> set (filter (\<lambda>f. \<forall>g \<in> set dir. key_of g = key_of f \<longrightarrow> g \<le> f) dir) \<and>
        key_of g = key_of f"
    then have gS: "g \<in> ?S" and ge: "?m \<le> g" using min by auto
    from ub gS have "g \<le> ?m" by blast
    then show "g = ?m" using ge by (rule order.antisym)
  qed
qed

lemma sweep_example:
  "sweep [''a-100'', ''a-200'', ''a-50'', ''b-10''] = Inr [''a-50'', ''b-10'']"
  by code_simp


text \<open>
  Claim C8, as the code has it. The directory holds distinct names, each with a dash (a
  login, a dash, a stamp), and no login is a name that \<open>Object.prototype\<close> defines. After
  the sweep the names left are, for each login, the one that is greatest in the order of
  strings among the names of that login: exactly one per login. The order is that of the
  characters, not of the numbers the stamps spell: among \<open>a-100\<close>, \<open>a-200\<close> and \<open>a-50\<close> the
  greatest is \<open>a-50\<close>, so of \<open>a-100\<close>, \<open>a-200\<close>, \<open>a-50\<close>, \<open>b-10\<close> the names \<open>a-50\<close> and
  \<open>b-10\<close> are left. Deleting a name that is not in the directory changes nothing.
\<close>

theorem C8_cleanup_sweep:
  assumes "distinct dir"
    and "list_all (\<lambda>f. CHR ''-'' \<in> set f) dir"
    and "list_all (\<lambda>f. key_of f \<notin> set object_prototype_names) dir"
  shows "sweep dir = Inr (filter (\<lambda>f. \<forall>g \<in> set dir. key_of g = key_of f \<longrightarrow> g \<le> f) dir) \<and>
         (\<forall>f \<in> set dir. \<exists>!g. g \<in> surviving dir \<and> key_of g = key_of f) \<and>
         surviving [''a-100'', ''a-200'', ''a-50'', ''b-10''] = {''a-50'', ''b-10''} \<and>
         (f \<notin> set d \<longrightarrow> unlink f d = d)"
proof -
  from assms have s: "sweep dir = Inr (filter (\<lambda>f. \<forall>g \<in> set dir. key_of g = key_of f \<longrightarrow> g \<le> f) dir)"
    by (intro sweep_survivors) (simp_all add: list_all_iff)
  then have "surviving dir = set (filter (\<lambda>f. \<forall>g \<in> set dir. key_of g = key_of f \<longrightarrow> g \<le> f) dir)"
    by (simp add: surviving_def)
  then have "\<forall>f \<in> set dir. \<exists>!g. g \<in> surviving dir \<and> key_of g = key_of f"
    using one_per_login [of _ dir] by simp
  moreover have "surviving [''a-100'', ''a-200'', ''a-50'', ''b-10''] = {''a-50'', ''b-10''}"
    by (simp add: surviving_def sweep_example)
  moreover have "f \<notin> set d \<longrightarrow> unlink f d = d"
    by (simp add: unlink_def)
  ultimately show ?thesis using s by blast
qed

text \<open>The sweep of the four names of the claim leaves \<open>a-50\<close>, not \<open>a-200\<close>.\<close>

theorem C8_counterexample:
  "surviving [''a-100'', ''a-200'', ''a-50'', ''b-10''] = {''a-50'', ''b-10''} \<and>
   surviving [''a-100'', ''a-200'', ''a-50'', ''b-10''] \<noteq> {''a-200'', ''b-10''}"
  by code_simp

theorem C8_cleanup_sweep_witness:
  "distinct [''octocat-1500000000000'', ''octocat-1500000300000'', ''hubot-1500000000500''] \<and>
   list_all (\<lambda>f. CHR ''-'' \<in> set f)
     [''octocat-1500000000000'', ''octocat-1500000300000'', ''hubot-1500000000500''] \<and>
   list_all (\<lambda>f. key_of f \<notin> set object_prototype_names)
     [''octocat-1500000000000'', ''octocat-1500000300000'', ''hubot-1500000000500''] \<and>
   sweep [''octocat-1500000000000'', ''octocat-1500000300000'', ''hubot-1500000000500''] =
     Inr [''octocat-1500000300000'', ''hubot-1500000000500'']"
proof -
  let ?dir = "[''octocat-1500000000000'', ''octocat-1500000300000'', ''hubot-1500000000500'']"
  have d: "distinct ?dir" by simp
  have h: "list_all (\<lambda>f. CHR ''-'' \<in> set f) ?dir" by simp
  have k: "list_all (\<lambda>f. key_of f \<notin> set object_prototype_names) ?dir" by code_simp
  have f: "filter (\<lambda>f. \<forall>g \<in> set ?dir. key_of g = key_of f \<longrightarrow> g \<le> f) ?dir =
      [''octocat-1500000300000'', ''hubot-1500000000500'']"
    by code_simp
  show ?thesis
    using d h k C8_cleanup_sweep [OF d h k] by (simp only: f simp_thms)
qed

end
